theory Spec2Isabelle
  imports Complex_Main "HOL-Library.Multiset"
begin

section \<open>JavaScript values\<close>

text \<open>
  The reducer receives actions that the validator inspects at run time
  (\<^verbatim>\<open>typeof\<close>, \<^verbatim>\<open>Array.isArray\<close>, truthiness), so actions and their payloads are
  untyped JavaScript values. A number is a finite rational (every finite double is
  one) or one of the three non-finite doubles. A string is a list of code units below
  256. An object is the association list of its own properties; the first entry of a
  key is the property's value.
\<close>

datatype number = Num rat | NaN | Infinity | NegInfinity

datatype jsval =
    JUndefined
  | JNull
  | JBool bool
  | JNum number
  | JStr string
  | JArr "jsval list"
  | JObj "(string \<times> jsval) list"

fun typeof :: "jsval \<Rightarrow> string" where
  "typeof JUndefined = ''undefined''"
| "typeof JNull = ''object''"
| "typeof (JBool b) = ''boolean''"
| "typeof (JNum n) = ''number''"
| "typeof (JStr s) = ''string''"
| "typeof (JArr xs) = ''object''"
| "typeof (JObj kvs) = ''object''"

text \<open>\<^verbatim>\<open>!v\<close> is \<open>\<not> truthy v\<close>.\<close>

fun truthy :: "jsval \<Rightarrow> bool" where
  "truthy JUndefined = False"
| "truthy JNull = False"
| "truthy (JBool b) = b"
| "truthy (JNum n) = (n \<noteq> Num 0 \<and> n \<noteq> NaN)"
| "truthy (JStr s) = (s \<noteq> [])"
| "truthy (JArr xs) = True"
| "truthy (JObj kvs) = True"

text \<open>
  \<^verbatim>\<open>v.k\<close> for the property names the code reads (\<^verbatim>\<open>type\<close>, \<^verbatim>\<open>payload\<close>,
  \<^verbatim>\<open>description\<close>, \<^verbatim>\<open>id\<close>, ...): none of them is an array index or \<^verbatim>\<open>length\<close>, so
  they are \<^verbatim>\<open>undefined\<close> on arrays and primitives. The code reads a property only
  behind a truthiness guard, so the read never meets \<^verbatim>\<open>null\<close> or \<^verbatim>\<open>undefined\<close>.
\<close>

fun get :: "jsval \<Rightarrow> string \<Rightarrow> jsval" where
  "get (JObj kvs) k = (case map_of kvs k of None \<Rightarrow> JUndefined | Some v \<Rightarrow> v)"
| "get v k = JUndefined"

subsection \<open>Numbers\<close>

text \<open>\<^verbatim>\<open>Number.isInteger\<close>, \<^verbatim>\<open>Number.isFinite\<close> and the comparisons of a number
  with a number; every comparison with \<^verbatim>\<open>NaN\<close> is false.\<close>

fun isInteger :: "number \<Rightarrow> bool" where
  "isInteger (Num r) = (of_int (floor r) = r)"
| "isInteger n = False"

fun isFinite :: "number \<Rightarrow> bool" where
  "isFinite (Num r) = True"
| "isFinite n = False"

fun num_less :: "number \<Rightarrow> number \<Rightarrow> bool" where
  "num_less (Num a) (Num b) = (a < b)"
| "num_less NaN y = False"
| "num_less x NaN = False"
| "num_less Infinity y = False"
| "num_less x NegInfinity = False"
| "num_less x Infinity = True"
| "num_less NegInfinity y = True"

fun num_ge :: "number \<Rightarrow> number \<Rightarrow> bool" where
  "num_ge (Num a) (Num b) = (a \<ge> b)"
| "num_ge NaN y = False"
| "num_ge x NaN = False"
| "num_ge Infinity y = True"
| "num_ge x NegInfinity = True"
| "num_ge x Infinity = False"
| "num_ge NegInfinity y = False"

subsection \<open>Strings\<close>

text \<open>\<^verbatim>\<open>String.prototype.trim\<close> removes leading and trailing white space and line
  terminators; below 256 these are the code units 9 to 13, 32 and 160.\<close>

definition isWhiteSpace :: "char \<Rightarrow> bool" where
  "isWhiteSpace c = ((of_char c :: nat) \<in> {9, 10, 11, 12, 13, 32, 160})"

definition trim :: "string \<Rightarrow> string" where
  "trim s = rev (dropWhile isWhiteSpace (rev (dropWhile isWhiteSpace s)))"

section \<open>Validation (utils/validation.ts)\<close>

record ValidationResult =
  isValid :: bool
  error :: "string option"

definition valid :: ValidationResult where
  "valid = \<lparr>isValid = True, error = None\<rparr>"

definition invalid :: "string \<Rightarrow> ValidationResult" where
  "invalid e = \<lparr>isValid = False, error = Some e\<rparr>"

definition validateTaskDescription :: "jsval \<Rightarrow> ValidationResult" where
  "validateTaskDescription description =
    (case description of
       JStr s \<Rightarrow>
         (let trimmed = trim s in
          if length trimmed = 0 then invalid ''Task description cannot be empty''
          else if length trimmed > 500 then invalid ''Task description too long (max 500 characters)''
          else valid)
     | _ \<Rightarrow> invalid ''Task description must be a string'')"

definition validatePriority :: "jsval \<Rightarrow> bool" where
  "validatePriority priority =
    (priority = JStr ''low'' \<or> priority = JStr ''medium'' \<or> priority = JStr ''high''
     \<or> priority = JStr ''critical'')"

definition validateDueDate :: "jsval \<Rightarrow> ValidationResult" where
  "validateDueDate dueDate =
    (if dueDate = JNull \<or> dueDate = JUndefined then valid
     else case dueDate of
       JNum n \<Rightarrow>
         (if num_less n (Num 0) then invalid ''Due date cannot be negative''
          else if \<not> isFinite n then invalid ''Due date must be a finite number''
          else valid)
     | _ \<Rightarrow> invalid ''Due date must be a number (Unix timestamp) or null'')"

fun validateTagsLoop :: "jsval list \<Rightarrow> ValidationResult" where
  "validateTagsLoop [] = valid"
| "validateTagsLoop (tag # rest) =
    (case tag of
       JStr s \<Rightarrow>
         (if length (trim s) = 0 then invalid ''Tags cannot be empty''
          else if length s > 50 then invalid ''Tag too long (max 50 characters)''
          else validateTagsLoop rest)
     | _ \<Rightarrow> invalid ''All tags must be strings'')"

definition validateTags :: "jsval \<Rightarrow> ValidationResult" where
  "validateTags tags =
    (if tags = JUndefined then valid
     else case tags of
       JArr xs \<Rightarrow>
         (if length xs > 20 then invalid ''Too many tags (max 20)''
          else validateTagsLoop xs)
     | _ \<Rightarrow> invalid ''Tags must be an array'')"

definition validateTaskInput :: "jsval \<Rightarrow> ValidationResult" where
  "validateTaskInput input =
    (let descResult = validateTaskDescription (get input ''description'') in
     if \<not> isValid descResult then descResult
     else if get input ''priority'' \<noteq> JUndefined \<and> \<not> validatePriority (get input ''priority'')
       then invalid ''Invalid priority level''
     else let dueDateResult = validateDueDate (get input ''dueDate'') in
     if \<not> isValid dueDateResult then dueDateResult
     else let tagsResult = validateTags (get input ''tags'') in
     if \<not> isValid tagsResult then tagsResult
     else valid)"

definition validateTaskId :: "jsval \<Rightarrow> ValidationResult" where
  "validateTaskId ident =
    (case ident of
       JStr s \<Rightarrow>
         (if length (trim s) = 0 then invalid ''Task ID cannot be empty'' else valid)
     | _ \<Rightarrow> invalid ''Task ID must be a string'')"

definition validateViewType :: "jsval \<Rightarrow> bool" where
  "validateViewType view =
    (view = JStr ''all'' \<or> view = JStr ''today'' \<or> view = JStr ''upcoming''
     \<or> view = JStr ''priority'' \<or> view = JStr ''completed'')"

definition validateReorderIndices :: "jsval \<Rightarrow> jsval \<Rightarrow> nat \<Rightarrow> ValidationResult" where
  "validateReorderIndices fromIndex toIndex arrayLength =
    (case (fromIndex, toIndex) of
       (JNum f, JNum t) \<Rightarrow>
         (if \<not> isInteger f \<or> \<not> isInteger t then invalid ''Indices must be integers''
          else if num_less f (Num 0) \<or> num_ge f (Num (of_nat arrayLength))
            then invalid ''From index out of bounds''
          else if num_less t (Num 0) \<or> num_ge t (Num (of_nat arrayLength))
            then invalid ''To index out of bounds''
          else valid)
     | _ \<Rightarrow> invalid ''Indices must be numbers'')"

text \<open>The loop over the ids of a batch payload: the first invalid id is the result.\<close>

fun validateIdsLoop :: "jsval list \<Rightarrow> ValidationResult" where
  "validateIdsLoop [] = valid"
| "validateIdsLoop (ident # rest) =
    (let result = validateTaskId ident in
     if \<not> isValid result then result else validateIdsLoop rest)"

definition notObject :: "jsval \<Rightarrow> bool" where
  "notObject v = (\<not> truthy v \<or> typeof v \<noteq> ''object'')"

definition validateAction :: "jsval \<Rightarrow> ValidationResult" where
  "validateAction action =
    (if notObject action then invalid ''Action must be an object''
     else if \<not> truthy (get action ''type'') \<or> typeof (get action ''type'') \<noteq> ''string''
       then invalid ''Action must have a type string''
     else let ty = get action ''type''; payload = get action ''payload'' in
       if ty = JStr ''ADD_TASK'' then
         (if notObject payload then invalid ''ADD_TASK requires a payload object''
          else validateTaskInput payload)
       else if ty = JStr ''UPDATE_TASK'' then
         (if notObject payload then invalid ''UPDATE_TASK requires a payload object''
          else let idResult = validateTaskId (get payload ''id'') in
            if \<not> isValid idResult then idResult
            else if notObject (get payload ''updates'')
              then invalid ''UPDATE_TASK requires updates object''
            else valid)
       else if ty = JStr ''DELETE_TASK'' \<or> ty = JStr ''TOGGLE_COMPLETE''
               \<or> ty = JStr ''TOGGLE_TASK_SELECTION'' then validateTaskId payload
       else if ty = JStr ''REORDER_TASKS'' then
         (if notObject payload then invalid ''REORDER_TASKS requires a payload object''
          else valid)
       else if ty = JStr ''SET_VIEW'' then
         (if \<not> validateViewType payload then invalid ''Invalid view type'' else valid)
       else if ty = JStr ''SET_REORDER_MODE'' then
         (if typeof payload \<noteq> ''boolean''
          then invalid ''SET_REORDER_MODE requires boolean payload'' else valid)
       else if ty = JStr ''SET_EDITING_TASK'' then
         (if payload \<noteq> JNull then
            (let result = validateTaskId payload in
             if \<not> isValid result then result else valid)
          else valid)
       else if ty = JStr ''SET_TAG_FILTER'' then
         (if payload \<noteq> JNull \<and> typeof payload \<noteq> ''string''
          then invalid ''SET_TAG_FILTER requires string or null payload'' else valid)
       else if ty = JStr ''BATCH_DELETE'' \<or> ty = JStr ''BATCH_COMPLETE'' then
         (case payload of
            JArr ids \<Rightarrow>
              (let result = validateIdsLoop ids in
               if \<not> isValid result then result else valid)
          | _ \<Rightarrow> invalid ''Batch actions require array payload'')
       else if ty = JStr ''SET_THEME'' then
         (if notObject payload then invalid ''SET_THEME requires theme config object''
          else valid)
       else if ty = JStr ''TOGGLE_MULTI_SELECT'' \<or> ty = JStr ''CLEAR_SELECTIONS'' then valid
       else invalid (''Unknown action type: '' @ (case ty of JStr s \<Rightarrow> s | _ \<Rightarrow> [])))"

section \<open>State (types/Task.ts, types/State.ts)\<close>

datatype Priority = Low | Medium | High | Critical

record Task =
  id_t :: string
  description :: string
  completed :: bool
  createdAt :: number
  priority :: Priority
  dueDate :: "number option"
  tags :: "string list"

datatype ViewType = ViewAll | ViewToday | ViewUpcoming | ViewPriority | ViewCompleted

record UIState =
  selectedView :: ViewType
  multiSelectMode :: bool
  selectedTaskIds :: "string set"
  reorderMode :: bool
  editingTaskId :: "string option"
  selectedTag :: "string option"

text \<open>The theme is opaque to the reducer: it stores the payload of SET_THEME as it is.\<close>

record AppState =
  tasks :: "Task list"
  ui :: UIState
  theme :: jsval

definition initialState :: "jsval \<Rightarrow> AppState" where
  "initialState defaultTheme =
    \<lparr>tasks = [],
     ui = \<lparr>selectedView = ViewAll, multiSelectMode = False, selectedTaskIds = {},
           reorderMode = False, editingTaskId = None, selectedTag = None\<rparr>,
     theme = defaultTheme\<rparr>"

subsection \<open>Reading a validated payload at its declared type\<close>

text \<open>
  The state is typed as the interfaces \<^verbatim>\<open>Task\<close>, \<^verbatim>\<open>UIState\<close> and \<^verbatim>\<open>AppState\<close>
  declare it. The functions below read a JavaScript value at such a type; \<open>None\<close> means
  the value is not of that type. Lemma \<open>appReducer_total\<close> shows that this only
  happens for an UPDATE_TASK whose \<^verbatim>\<open>updates\<close> object holds a value that is not of the
  type of the \<^verbatim>\<open>Task\<close> field it overwrites (the validator does not look inside
  \<^verbatim>\<open>updates\<close>): JavaScript would then store a task that is no \<^verbatim>\<open>Task\<close>, and the
  reducer's result is \<open>None\<close> here.
\<close>

fun asString :: "jsval \<Rightarrow> string option" where
  "asString (JStr s) = Some s"
| "asString v = None"

fun asBool :: "jsval \<Rightarrow> bool option" where
  "asBool (JBool b) = Some b"
| "asBool v = None"

fun asNumber :: "jsval \<Rightarrow> number option" where
  "asNumber (JNum n) = Some n"
| "asNumber v = None"

definition asPriority :: "jsval \<Rightarrow> Priority option" where
  "asPriority v =
    (if v = JStr ''low'' then Some Low
     else if v = JStr ''medium'' then Some Medium
     else if v = JStr ''high'' then Some High
     else if v = JStr ''critical'' then Some Critical
     else None)"

definition asViewType :: "jsval \<Rightarrow> ViewType option" where
  "asViewType v =
    (if v = JStr ''all'' then Some ViewAll
     else if v = JStr ''today'' then Some ViewToday
     else if v = JStr ''upcoming'' then Some ViewUpcoming
     else if v = JStr ''priority'' then Some ViewPriority
     else if v = JStr ''completed'' then Some ViewCompleted
     else None)"

fun asNullable :: "(jsval \<Rightarrow> 'a option) \<Rightarrow> jsval \<Rightarrow> 'a option option" where
  "asNullable f JNull = Some None"
| "asNullable f v = map_option Some (f v)"

fun asStrings :: "jsval list \<Rightarrow> string list option" where
  "asStrings [] = Some []"
| "asStrings (v # vs) =
    (case (asString v, asStrings vs) of
       (Some s, Some ss) \<Rightarrow> Some (s # ss)
     | _ \<Rightarrow> None)"

fun asStringArray :: "jsval \<Rightarrow> string list option" where
  "asStringArray (JArr vs) = asStrings vs"
| "asStringArray v = None"

text \<open>An array index: a number that \<^verbatim>\<open>validateReorderIndices\<close> accepted.\<close>

fun asIndex :: "jsval \<Rightarrow> nat option" where
  "asIndex (JNum (Num r)) = (if of_int (floor r) = r \<and> 0 \<le> r then Some (nat (floor r)) else None)"
| "asIndex v = None"

section \<open>Identifiers (utils/idGenerator.ts)\<close>

text \<open>
  \<^verbatim>\<open>generateId\<close> reads the clock and the random number generator. Both are inputs
  of the model: \<open>idTimestamp\<close> is the value of \<^verbatim>\<open>Date.now()\<close> inside \<^verbatim>\<open>generateId\<close>,
  \<open>idRandomSuffix\<close> the string \<^verbatim>\<open>Math.random().toString(36).substr(2, 9)\<close>, and
  \<open>createdTimestamp\<close> the value of the later \<^verbatim>\<open>Date.now()\<close> that becomes
  \<^verbatim>\<open>createdAt\<close>.
\<close>

record Env =
  idTimestamp :: int
  idRandomSuffix :: string
  createdTimestamp :: int

definition digitChar :: "nat \<Rightarrow> char" where
  "digitChar d = char_of (48 + d)"

function showNat :: "nat \<Rightarrow> string" where
  "showNat n = (if n < 10 then [digitChar n] else showNat (n div 10) @ [digitChar (n mod 10)])"
  by pat_completeness auto
termination
  by (relation "measure (\<lambda>n. n)") auto

declare showNat.simps [simp del]

definition showInt :: "int \<Rightarrow> string" where
  "showInt i = (if i < 0 then CHR ''-'' # showNat (nat (- i)) else showNat (nat i))"

definition generateId :: "Env \<Rightarrow> string" where
  "generateId env = ''task_'' @ showInt (idTimestamp env) @ ''_'' @ idRandomSuffix env"

section \<open>The reducer (state/reducer.ts)\<close>

text \<open>\<^verbatim>\<open>Partial<Task>\<close>: the fields of an \<^verbatim>\<open>updates\<close> object; \<open>None\<close> is an absent key.\<close>

record TaskUpdates =
  u_id :: "string option"
  u_description :: "string option"
  u_completed :: "bool option"
  u_createdAt :: "number option"
  u_priority :: "Priority option"
  u_dueDate :: "number option option"
  u_tags :: "string list option"

text \<open>The own properties that a spread \<^verbatim>\<open>...v\<close> copies. An array has index keys only,
  and no field of a task is one.\<close>

fun own :: "jsval \<Rightarrow> string \<Rightarrow> jsval option" where
  "own (JObj kvs) k = map_of kvs k"
| "own v k = None"

fun asField :: "(jsval \<Rightarrow> 'a option) \<Rightarrow> jsval option \<Rightarrow> 'a option option" where
  "asField f None = Some None"
| "asField f (Some v) = map_option Some (f v)"

definition asTaskUpdates :: "jsval \<Rightarrow> TaskUpdates option" where
  "asTaskUpdates u =
    (case (asField asString (own u ''id''), asField asString (own u ''description''),
           asField asBool (own u ''completed''), asField asNumber (own u ''createdAt''),
           asField asPriority (own u ''priority''),
           asField (asNullable asNumber) (own u ''dueDate''),
           asField asStringArray (own u ''tags'')) of
       (Some i, Some d, Some c, Some ca, Some p, Some dd, Some tg) \<Rightarrow>
         Some \<lparr>u_id = i, u_description = d, u_completed = c, u_createdAt = ca,
               u_priority = p, u_dueDate = dd, u_tags = tg\<rparr>
     | _ \<Rightarrow> None)"

text \<open>\<^verbatim>\<open>{ ...task, ...updates }\<close>: every key of \<^verbatim>\<open>updates\<close> overwrites the task's. Keys
  of \<^verbatim>\<open>updates\<close> that are no field of \<^verbatim>\<open>Task\<close> are not represented.\<close>

definition mergeTask :: "Task \<Rightarrow> TaskUpdates \<Rightarrow> Task" where
  "mergeTask task updates =
    \<lparr>id_t = (case u_id updates of None \<Rightarrow> id_t task | Some v \<Rightarrow> v),
     description = (case u_description updates of None \<Rightarrow> description task | Some v \<Rightarrow> v),
     completed = (case u_completed updates of None \<Rightarrow> completed task | Some v \<Rightarrow> v),
     createdAt = (case u_createdAt updates of None \<Rightarrow> createdAt task | Some v \<Rightarrow> v),
     priority = (case u_priority updates of None \<Rightarrow> priority task | Some v \<Rightarrow> v),
     dueDate = (case u_dueDate updates of None \<Rightarrow> dueDate task | Some v \<Rightarrow> v),
     tags = (case u_tags updates of None \<Rightarrow> tags task | Some v \<Rightarrow> v)\<rparr>"

text \<open>\<^verbatim>\<open>state.tasks.some(task => task.id === id)\<close>\<close>

definition taskExists :: "AppState \<Rightarrow> string \<Rightarrow> bool" where
  "taskExists state ident = list_ex (\<lambda>task. id_t task = ident) (tasks state)"

definition reduceAddTask :: "Env \<Rightarrow> AppState \<Rightarrow> jsval \<Rightarrow> AppState option" where
  "reduceAddTask env state payload =
    (case (asString (get payload ''description''),
           (if truthy (get payload ''priority'') then asPriority (get payload ''priority'')
            else Some Medium),
           (if get payload ''dueDate'' = JUndefined then Some None
            else asNullable asNumber (get payload ''dueDate'')),
           (if truthy (get payload ''tags'') then asStringArray (get payload ''tags'')
            else Some [])) of
       (Some d, Some p, Some dd, Some tg) \<Rightarrow>
         (let newTask = \<lparr>id_t = generateId env, description = trim d, completed = False,
                          createdAt = Num (of_int (createdTimestamp env)), priority = p,
                          dueDate = dd, tags = tg\<rparr>
          in Some (state\<lparr>tasks := tasks state @ [newTask]\<rparr>))
     | _ \<Rightarrow> None)"

definition reduceUpdateTask :: "AppState \<Rightarrow> jsval \<Rightarrow> AppState option" where
  "reduceUpdateTask state payload =
    (case asString (get payload ''id'') of
       None \<Rightarrow> None
     | Some ident \<Rightarrow>
         if \<not> taskExists state ident then Some state
         else (case asTaskUpdates (get payload ''updates'') of
                 None \<Rightarrow> None
               | Some updates \<Rightarrow>
                   Some (state\<lparr>tasks :=
                     map (\<lambda>task. if id_t task = ident then mergeTask task updates else task)
                       (tasks state)\<rparr>)))"

definition reduceDeleteTask :: "AppState \<Rightarrow> jsval \<Rightarrow> AppState option" where
  "reduceDeleteTask state payload =
    (case asString payload of
       None \<Rightarrow> None
     | Some ident \<Rightarrow>
         if \<not> taskExists state ident then Some state
         else Some (state\<lparr>
           tasks := filter (\<lambda>task. id_t task \<noteq> ident) (tasks state),
           ui := (ui state)\<lparr>
             selectedTaskIds := Set.filter (\<lambda>i. i \<noteq> ident) (selectedTaskIds (ui state)),
             editingTaskId :=
               (if editingTaskId (ui state) = Some ident then None
                else editingTaskId (ui state))\<rparr>\<rparr>))"

definition reduceToggleComplete :: "AppState \<Rightarrow> jsval \<Rightarrow> AppState option" where
  "reduceToggleComplete state payload =
    (case asString payload of
       None \<Rightarrow> None
     | Some ident \<Rightarrow>
         if \<not> taskExists state ident then Some state
         else Some (state\<lparr>tasks :=
           map (\<lambda>task. if id_t task = ident then task\<lparr>completed := \<not> completed task\<rparr>
                        else task)
             (tasks state)\<rparr>))"

text \<open>\<^verbatim>\<open>a.splice(i, 1)\<close> and \<^verbatim>\<open>a.splice(i, 0, x)\<close> on a copy of the array.\<close>

definition spliceOut :: "nat \<Rightarrow> 'a list \<Rightarrow> 'a list" where
  "spliceOut i xs = take i xs @ drop (Suc i) xs"

definition spliceIn :: "nat \<Rightarrow> 'a \<Rightarrow> 'a list \<Rightarrow> 'a list" where
  "spliceIn i x xs = take i xs @ x # drop i xs"

definition reduceReorderTasks :: "AppState \<Rightarrow> jsval \<Rightarrow> AppState option" where
  "reduceReorderTasks state payload =
    (let fromIndex = get payload ''fromIndex''; toIndex = get payload ''toIndex'' in
     if \<not> isValid (validateReorderIndices fromIndex toIndex (length (tasks state)))
     then Some state
     else (case (asIndex fromIndex, asIndex toIndex) of
             (Some f, Some t) \<Rightarrow>
               (let removed = tasks state ! f;
                    newTasks = spliceIn t removed (spliceOut f (tasks state))
                in Some (state\<lparr>tasks := newTasks\<rparr>))
           | _ \<Rightarrow> None))"

definition reduceSetView :: "AppState \<Rightarrow> jsval \<Rightarrow> AppState option" where
  "reduceSetView state payload =
    (case asViewType payload of
       None \<Rightarrow> None
     | Some view \<Rightarrow> Some (state\<lparr>ui := (ui state)\<lparr>selectedView := view\<rparr>\<rparr>))"

definition reduceToggleMultiSelect :: "AppState \<Rightarrow> AppState option" where
  "reduceToggleMultiSelect state =
    Some (state\<lparr>ui := (ui state)\<lparr>
      multiSelectMode := \<not> multiSelectMode (ui state),
      selectedTaskIds :=
        (if multiSelectMode (ui state) then {} else selectedTaskIds (ui state))\<rparr>\<rparr>)"

definition reduceToggleTaskSelection :: "AppState \<Rightarrow> jsval \<Rightarrow> AppState option" where
  "reduceToggleTaskSelection state payload =
    (case asString payload of
       None \<Rightarrow> None
     | Some ident \<Rightarrow>
         if \<not> taskExists state ident then Some state
         else (let newSelectedIds =
                     (if ident \<in> selectedTaskIds (ui state)
                      then selectedTaskIds (ui state) - {ident}
                      else insert ident (selectedTaskIds (ui state)))
               in Some (state\<lparr>ui := (ui state)\<lparr>selectedTaskIds := newSelectedIds\<rparr>\<rparr>)))"

definition reduceClearSelections :: "AppState \<Rightarrow> AppState option" where
  "reduceClearSelections state = Some (state\<lparr>ui := (ui state)\<lparr>selectedTaskIds := {}\<rparr>\<rparr>)"

definition reduceSetReorderMode :: "AppState \<Rightarrow> jsval \<Rightarrow> AppState option" where
  "reduceSetReorderMode state payload =
    (case asBool payload of
       None \<Rightarrow> None
     | Some b \<Rightarrow> Some (state\<lparr>ui := (ui state)\<lparr>reorderMode := b\<rparr>\<rparr>))"

definition reduceSetEditingTask :: "AppState \<Rightarrow> jsval \<Rightarrow> AppState option" where
  "reduceSetEditingTask state payload =
    (case asNullable asString payload of
       None \<Rightarrow> None
     | Some editing \<Rightarrow>
         if (case editing of None \<Rightarrow> False | Some ident \<Rightarrow> \<not> taskExists state ident)
         then Some state
         else Some (state\<lparr>ui := (ui state)\<lparr>editingTaskId := editing\<rparr>\<rparr>))"

definition reduceSetTheme :: "AppState \<Rightarrow> jsval \<Rightarrow> AppState option" where
  "reduceSetTheme state payload = Some (state\<lparr>theme := payload\<rparr>)"

definition reduceBatchDelete :: "AppState \<Rightarrow> jsval \<Rightarrow> AppState option" where
  "reduceBatchDelete state payload =
    (case asStringArray payload of
       None \<Rightarrow> None
     | Some ids \<Rightarrow>
         (let existingIds = set (map id_t (tasks state));
              validIdsToDelete = filter (\<lambda>i. i \<in> existingIds) ids
          in if length validIdsToDelete = 0 then Some state
             else (let idsToDelete = set validIdsToDelete
                   in Some (state\<lparr>
                     tasks := filter (\<lambda>task. id_t task \<notin> idsToDelete) (tasks state),
                     ui := (ui state)\<lparr>selectedTaskIds := {}, multiSelectMode := False\<rparr>\<rparr>))))"

definition reduceBatchComplete :: "AppState \<Rightarrow> jsval \<Rightarrow> AppState option" where
  "reduceBatchComplete state payload =
    (case asStringArray payload of
       None \<Rightarrow> None
     | Some ids \<Rightarrow>
         (let existingIds = set (map id_t (tasks state));
              validIdsToComplete = filter (\<lambda>i. i \<in> existingIds) ids
          in if length validIdsToComplete = 0 then Some state
             else (let idsToComplete = set validIdsToComplete
                   in Some (state\<lparr>
                     tasks := map (\<lambda>task. if id_t task \<in> idsToComplete
                                           then task\<lparr>completed := True\<rparr> else task)
                                (tasks state),
                     ui := (ui state)\<lparr>selectedTaskIds := {}, multiSelectMode := False\<rparr>\<rparr>))))"

definition reduceSetTagFilter :: "AppState \<Rightarrow> jsval \<Rightarrow> AppState option" where
  "reduceSetTagFilter state payload =
    (case asNullable asString payload of
       None \<Rightarrow> None
     | Some tag \<Rightarrow> Some (state\<lparr>ui := (ui state)\<lparr>selectedTag := tag\<rparr>\<rparr>))"

text \<open>
  \<^verbatim>\<open>appReducer(state, action)\<close>. The error reports that the source schedules with
  \<^verbatim>\<open>setTimeout\<close> do not touch the state and are left out. Each case of the
  \<^verbatim>\<open>switch\<close> is one of the functions above.
\<close>

definition appReducer :: "Env \<Rightarrow> AppState \<Rightarrow> jsval \<Rightarrow> AppState option" where
  "appReducer env state action =
    (if \<not> isValid (validateAction action) then Some state
     else let ty = get action ''type''; payload = get action ''payload'' in
       if ty = JStr ''ADD_TASK'' then reduceAddTask env state payload
       else if ty = JStr ''UPDATE_TASK'' then reduceUpdateTask state payload
       else if ty = JStr ''DELETE_TASK'' then reduceDeleteTask state payload
       else if ty = JStr ''TOGGLE_COMPLETE'' then reduceToggleComplete state payload
       else if ty = JStr ''REORDER_TASKS'' then reduceReorderTasks state payload
       else if ty = JStr ''SET_VIEW'' then reduceSetView state payload
       else if ty = JStr ''TOGGLE_MULTI_SELECT'' then reduceToggleMultiSelect state
       else if ty = JStr ''TOGGLE_TASK_SELECTION'' then reduceToggleTaskSelection state payload
       else if ty = JStr ''CLEAR_SELECTIONS'' then reduceClearSelections state
       else if ty = JStr ''SET_REORDER_MODE'' then reduceSetReorderMode state payload
       else if ty = JStr ''SET_EDITING_TASK'' then reduceSetEditingTask state payload
       else if ty = JStr ''SET_THEME'' then reduceSetTheme state payload
       else if ty = JStr ''BATCH_DELETE'' then reduceBatchDelete state payload
       else if ty = JStr ''BATCH_COMPLETE'' then reduceBatchComplete state payload
       else if ty = JStr ''SET_TAG_FILTER'' then reduceSetTagFilter state payload
       else Some state)"

section \<open>Selectors (state/selectors.ts)\<close>

subsection \<open>Memoization\<close>

text \<open>
  \<^verbatim>\<open>createSelector\<close> returns a closure over three variables, \<^verbatim>\<open>lastInput\<close>,
  \<^verbatim>\<open>lastResult\<close> and \<^verbatim>\<open>hasRun\<close>. The model passes them as a record: a call of the
  selector takes the cache and the state and returns the result, the cache after the
  call, and the number of times it invoked \<^verbatim>\<open>resultFn\<close> (0 or 1). An input and a
  result are values of JavaScript; \<open>None\<close> is \<^verbatim>\<open>undefined\<close>. The equality \<^verbatim>\<open>===\<close> of two
  values is the equality of HOL: an object shared by two states is one value.
\<close>

record ('i, 'r) SelectorCache =
  lastInput :: "'i option"
  lastResult :: "'r option"
  hasRun :: bool

definition newCache :: "('i, 'r) SelectorCache" where
  "newCache = \<lparr>lastInput = None, lastResult = None, hasRun = False\<rparr>"

definition defaultEqualityFn :: "'i option \<Rightarrow> 'i option \<Rightarrow> bool" where
  "defaultEqualityFn prev next = (prev = next)"

text \<open>\<^verbatim>\<open>arrayEqualityFn\<close> on two arrays: the same array, or the same length and the
  same element at every index.\<close>

definition arrayEqualityFn :: "'a list \<Rightarrow> 'a list \<Rightarrow> bool" where
  "arrayEqualityFn prev next =
    (if prev = next then True
     else if length prev \<noteq> length next then False
     else list_all (\<lambda>i. prev ! i = next ! i) [0..<length prev])"

definition createSelector ::
  "('s \<Rightarrow> 'i option) \<Rightarrow> ('i option \<Rightarrow> 'r option) \<Rightarrow> ('i option \<Rightarrow> 'i option \<Rightarrow> bool)
   \<Rightarrow> ('i, 'r) SelectorCache \<Rightarrow> 's \<Rightarrow> 'r option \<times> ('i, 'r) SelectorCache \<times> nat" where
  "createSelector inputSelector resultFn equalityFn cache state =
    (let currentInput = inputSelector state in
     if hasRun cache \<and> lastInput cache \<noteq> None \<and> equalityFn (lastInput cache) currentInput
     then (lastResult cache, cache, 0)
     else (let currentResult = resultFn currentInput in
           (currentResult,
            \<lparr>lastInput = currentInput, lastResult = currentResult, hasRun = True\<rparr>,
            1)))"

text \<open>Calls of one selector in a row: the results, the last cache and the number of
  invocations of \<^verbatim>\<open>resultFn\<close>.\<close>

fun calls ::
  "(('i, 'r) SelectorCache \<Rightarrow> 's \<Rightarrow> 'r option \<times> ('i, 'r) SelectorCache \<times> nat)
   \<Rightarrow> ('i, 'r) SelectorCache \<Rightarrow> 's list \<Rightarrow> 'r option list \<times> ('i, 'r) SelectorCache \<times> nat" where
  "calls selector cache [] = ([], cache, 0)"
| "calls selector cache (state # states) =
    (case selector cache state of
       (r, cache', n) \<Rightarrow>
         (case calls selector cache' states of
            (rs, cache'', m) \<Rightarrow> (r # rs, cache'', n + m)))"

subsection \<open>Dates\<close>

text \<open>
  A \<^verbatim>\<open>Date\<close> is its time value, the milliseconds since the epoch, or invalid (\<open>None\<close>,
  the time value \<^verbatim>\<open>NaN\<close>). \<^verbatim>\<open>new Date()\<close> reads the clock, an input of the model.
  Local time is UTC plus a fixed offset, so that every local day has 86400000
  milliseconds; time values are not limited to the range of \<^verbatim>\<open>Date\<close>.
\<close>

record Clock =
  now :: int
  tzOffset :: int

definition msPerDay :: int where
  "msPerDay = 86400000"

text \<open>\<^verbatim>\<open>new Date(n)\<close> for a number: the number without its fraction.\<close>

fun newDate :: "number \<Rightarrow> int option" where
  "newDate (Num r) = Some (if r < 0 then ceiling r else floor r)"
| "newDate n = None"

text \<open>\<^verbatim>\<open>setHours(0, 0, 0, 0)\<close> on a copy: the local midnight of the date's day.\<close>

definition startOfDay :: "Clock \<Rightarrow> int option \<Rightarrow> int option" where
  "startOfDay clock date = map_option (\<lambda>t. t - (t + tzOffset clock) mod msPerDay) date"

text \<open>\<^verbatim>\<open>setDate(getDate() + days)\<close> on a copy.\<close>

definition addDays :: "int option \<Rightarrow> int \<Rightarrow> int option" where
  "addDays date days = map_option (\<lambda>t. t + days * msPerDay) date"

text \<open>\<^verbatim>\<open>a >= b\<close> and \<^verbatim>\<open>a <= b\<close> on dates compare the time values; with an invalid
  date both are false.\<close>

fun date_ge :: "int option \<Rightarrow> int option \<Rightarrow> bool" where
  "date_ge (Some a) (Some b) = (a \<ge> b)"
| "date_ge a b = False"

fun date_le :: "int option \<Rightarrow> int option \<Rightarrow> bool" where
  "date_le (Some a) (Some b) = (a \<le> b)"
| "date_le a b = False"

subsection \<open>Upcoming tasks\<close>

text \<open>\<^verbatim>\<open>!task.dueDate\<close>: \<^verbatim>\<open>null\<close>, 0 and \<^verbatim>\<open>NaN\<close> are falsy.\<close>

fun noDueDate :: "number option \<Rightarrow> bool" where
  "noDueDate None = True"
| "noDueDate (Some n) = (n = Num 0 \<or> n = NaN)"

text \<open>The time value of \<^verbatim>\<open>new Date(task.dueDate)\<close>.\<close>

definition dueTime :: "Task \<Rightarrow> int option" where
  "dueTime task = (case dueDate task of None \<Rightarrow> None | Some n \<Rightarrow> newDate n)"

text \<open>The result function of \<^verbatim>\<open>selectUpcomingTasks\<close>.\<close>

definition upcomingTasks :: "Clock \<Rightarrow> Task list \<Rightarrow> Task list" where
  "upcomingTasks clock taskList =
    (let today = startOfDay clock (Some (now clock));
         tomorrow = addDays today 1;
         weekFromNow = addDays today 7
     in filter (\<lambda>task.
          if noDueDate (dueDate task) \<or> completed task then False
          else date_ge (dueTime task) tomorrow \<and> date_le (dueTime task) weekFromNow)
        taskList)"

text \<open>
  \<^verbatim>\<open>selectUpcomingTasks = createSelector(state => state.tasks, ..., arrayEqualityFn)\<close>.
  The input is never \<^verbatim>\<open>undefined\<close>.
\<close>

definition selectUpcomingTasks ::
  "Clock \<Rightarrow> (Task list, Task list) SelectorCache \<Rightarrow> AppState
   \<Rightarrow> Task list option \<times> (Task list, Task list) SelectorCache \<times> nat" where
  "selectUpcomingTasks clock =
    createSelector (\<lambda>state. Some (tasks state)) (map_option (upcomingTasks clock))
      (rel_option arrayEqualityFn)"



text \<open>A cache that holds the result of \<open>f\<close> on the input it holds.\<close>

definition cacheOf :: "('i option \<Rightarrow> 'r option) \<Rightarrow> ('i, 'r) SelectorCache \<Rightarrow> bool" where
  "cacheOf f c = (\<not> hasRun c \<or> lastResult c = f (lastInput c))"

section \<open>Sample inputs\<close>

text \<open>Actions as the components dispatch them: an object with a \<^verbatim>\<open>type\<close> and, for
  most types, a \<^verbatim>\<open>payload\<close>.\<close>

definition mkAction :: "string \<Rightarrow> jsval \<Rightarrow> jsval" where
  "mkAction ty payload = JObj [(''type'', JStr ty), (''payload'', payload)]"

definition mkAction0 :: "string \<Rightarrow> jsval" where
  "mkAction0 ty = JObj [(''type'', JStr ty)]"

text \<open>The fifteen action types of \<^verbatim>\<open>types/State.ts\<close>.\<close>

definition knownActionTypes :: "string list" where
  "knownActionTypes =
    [''ADD_TASK'', ''UPDATE_TASK'', ''DELETE_TASK'', ''TOGGLE_COMPLETE'', ''REORDER_TASKS'',
     ''SET_VIEW'', ''TOGGLE_MULTI_SELECT'', ''TOGGLE_TASK_SELECTION'', ''CLEAR_SELECTIONS'',
     ''SET_REORDER_MODE'', ''SET_EDITING_TASK'', ''SET_THEME'', ''BATCH_DELETE'',
     ''BATCH_COMPLETE'', ''SET_TAG_FILTER'']"

text \<open>The three tasks of the multi-select unit tests.\<close>

definition task1 :: Task where
  "task1 = \<lparr>id_t = ''1'', description = ''Task 1'', completed = False, createdAt = Num 0,
             priority = Medium, dueDate = None, tags = []\<rparr>"

definition task2 :: Task where
  "task2 = \<lparr>id_t = ''2'', description = ''Task 2'', completed = False, createdAt = Num 0,
             priority = High, dueDate = None, tags = []\<rparr>"

definition task3 :: Task where
  "task3 = \<lparr>id_t = ''3'', description = ''Task 3'', completed = True, createdAt = Num 0,
             priority = Low, dueDate = None, tags = []\<rparr>"

definition threeTasks :: AppState where
  "threeTasks = (initialState JNull)\<lparr>tasks := [task1, task2, task3]\<rparr>"

definition env0 :: Env where
  "env0 = \<lparr>idTimestamp = 5, idRandomSuffix = ''i'', createdTimestamp = 5\<rparr>"

text \<open>Adding one task to the empty list, with the clock at 5 and \<^verbatim>\<open>Math.random()\<close> at
  0.5 (\<^verbatim>\<open>"0.i"\<close> in base 36).\<close>

definition addBuyMilk :: jsval where
  "addBuyMilk = mkAction ''ADD_TASK'' (JObj [(''description'', JStr ''Buy milk'')])"

definition milkTask :: Task where
  "milkTask = \<lparr>id_t = ''task_5_i'', description = ''Buy milk'', completed = False,
                createdAt = Num 5, priority = Medium, dueDate = None, tags = []\<rparr>"

definition milkState :: AppState where
  "milkState = (initialState JNull)\<lparr>tasks := [milkTask]\<rparr>"

text \<open>
  Noon of 1 January 1970 in UTC, and tasks due that day at 13:00, the next day at
  09:00, seven days ahead at 00:00 and seven days ahead at 12:00.
\<close>

definition noonClock :: Clock where
  "noonClock = \<lparr>now = 43200000, tzOffset = 0\<rparr>"

definition dueAt :: "string \<Rightarrow> int \<Rightarrow> Task" where
  "dueAt i t = \<lparr>id_t = i, description = ''Call'', completed = False, createdAt = Num 0,
                priority = Medium, dueDate = Some (Num (of_int t)), tags = []\<rparr>"


definition dueTomorrow :: Task where
  "dueTomorrow = dueAt ''b'' 118800000"





text \<open>The same time of day, eight days later.\<close>

definition laterClock :: Clock where
  "laterClock = \<lparr>now = 734400000, tzOffset = 0\<rparr>"

text \<open>Selectors for the memoization: one whose input is always \<^verbatim>\<open>undefined\<close>, one whose
  equality function holds every two inputs equal, and one over \<^verbatim>\<open>state.tasks\<close> that
  counts the tasks, as in the unit tests.\<close>

definition undefinedInputSelector ::
  "(nat, nat) SelectorCache \<Rightarrow> AppState \<Rightarrow> nat option \<times> (nat, nat) SelectorCache \<times> nat" where
  "undefinedInputSelector = createSelector (\<lambda>state. None) (\<lambda>input. Some 0) defaultEqualityFn"

definition coarseSelector ::
  "(nat, nat) SelectorCache \<Rightarrow> nat \<Rightarrow> nat option \<times> (nat, nat) SelectorCache \<times> nat" where
  "coarseSelector = createSelector (\<lambda>state. Some state) (\<lambda>input. input) (\<lambda>prev next. True)"

definition countTasks ::
  "(Task list, nat) SelectorCache \<Rightarrow> AppState
   \<Rightarrow> nat option \<times> (Task list, nat) SelectorCache \<times> nat" where
  "countTasks = createSelector (\<lambda>state. Some (tasks state)) (map_option length)
     defaultEqualityFn"

definition tomorrowState :: AppState where
  "tomorrowState = (initialState JNull)\<lparr>tasks := [dueTomorrow]\<rparr>"

section \<open>Sequences of actions\<close>

text \<open>
  The states reachable from a state are the results of applying the reducer to a
  sequence of actions, each with its own readings of the clock and of the random number
  generator.
\<close>

fun run :: "AppState \<Rightarrow> (Env \<times> jsval) list \<Rightarrow> AppState option" where
  "run s [] = Some s"
| "run s ((env, a) # rest) =
    (case appReducer env s a of None \<Rightarrow> None | Some s' \<Rightarrow> run s' rest)"

text \<open>Every TOGGLE_TASK_SELECTION of the sequence meets a state in multi-select mode.\<close>

fun togglesInMultiSelectOnly :: "AppState \<Rightarrow> (Env \<times> jsval) list \<Rightarrow> bool" where
  "togglesInMultiSelectOnly s [] = True"
| "togglesInMultiSelectOnly s ((env, a) # rest) =
    ((get a ''type'' \<noteq> JStr ''TOGGLE_TASK_SELECTION'' \<or> multiSelectMode (ui s))
     \<and> (case appReducer env s a of
          None \<Rightarrow> True
        | Some s' \<Rightarrow> togglesInMultiSelectOnly s' rest))"

text \<open>A string that is empty or holds white space only.\<close>

definition blank :: "string \<Rightarrow> bool" where
  "blank s = list_all isWhiteSpace s"


text \<open>A task is selected although multi-select mode was never entered.\<close>

definition selectWithoutMode :: "(Env \<times> jsval) list" where
  "selectWithoutMode =
    [(env0, addBuyMilk), (env0, mkAction ''TOGGLE_TASK_SELECTION'' (JStr ''task_5_i''))]"

definition milkSelected :: AppState where
  "milkSelected = milkState\<lparr>ui := (ui milkState)\<lparr>selectedTaskIds := {''task_5_i''}\<rparr>\<rparr>"

text \<open>Multi-select mode is entered, a task is added and selected, the mode is left.\<close>

definition selectWithinMode :: "(Env \<times> jsval) list" where
  "selectWithinMode =
    [(env0, mkAction0 ''TOGGLE_MULTI_SELECT''), (env0, addBuyMilk),
     (env0, mkAction ''TOGGLE_TASK_SELECTION'' (JStr ''task_5_i'')),
     (env0, mkAction0 ''TOGGLE_MULTI_SELECT'')]"


text \<open>
  Two tasks are added, one millisecond apart, and the second is then given the id of the
  first by UPDATE_TASK: a reachable state in which two tasks share an id.
\<close>

definition env1 :: Env where
  "env1 = \<lparr>idTimestamp = 6, idRandomSuffix = ''i'', createdTimestamp = 6\<rparr>"

definition makeTwins :: "(Env \<times> jsval) list" where
  "makeTwins =
    [(env0, addBuyMilk), (env1, addBuyMilk),
     (env0, mkAction ''UPDATE_TASK''
        (JObj [(''id'', JStr ''task_6_i''), (''updates'', JObj [(''id'', JStr ''task_5_i'')])]))]"

definition twinState :: AppState where
  "twinState = (initialState JNull)\<lparr>tasks := [milkTask, milkTask\<lparr>createdAt := Num 6\<rparr>]\<rparr>"

text \<open>The list of tasks after the completed flag of every task with the id \<open>i\<close> is flipped.\<close>

definition toggled :: "string \<Rightarrow> Task list \<Rightarrow> Task list" where
  "toggled i ts = map (\<lambda>task. if id_t task = i then task\<lparr>completed := \<not> completed task\<rparr>
                        else task) ts"



section \<open>Basic facts\<close>

lemma isValid_invalid [simp]: "\<not> isValid (invalid e)"
  by (simp add: invalid_def)

lemma isValid_valid [simp]: "isValid valid"
  by (simp add: valid_def)

lemma taskExists_iff: "taskExists s i \<longleftrightarrow> i \<in> id_t ` set (tasks s)"
  by (auto simp: taskExists_def list_ex_iff)

subsection \<open>The \<^verbatim>\<open>switch\<close> of the reducer, one case at a time\<close>

lemma dispatch_ADD_TASK:
  "get a ''type'' = JStr ''ADD_TASK'' \<Longrightarrow>
   appReducer env s a =
     (if \<not> isValid (validateAction a) then Some s else reduceAddTask env s (get a ''payload''))"
  by (simp add: appReducer_def)

lemma dispatch_UPDATE_TASK:
  "get a ''type'' = JStr ''UPDATE_TASK'' \<Longrightarrow>
   appReducer env s a =
     (if \<not> isValid (validateAction a) then Some s else reduceUpdateTask s (get a ''payload''))"
  by (simp add: appReducer_def)

lemma dispatch_DELETE_TASK:
  "get a ''type'' = JStr ''DELETE_TASK'' \<Longrightarrow>
   appReducer env s a =
     (if \<not> isValid (validateAction a) then Some s else reduceDeleteTask s (get a ''payload''))"
  by (simp add: appReducer_def)

lemma dispatch_TOGGLE_COMPLETE:
  "get a ''type'' = JStr ''TOGGLE_COMPLETE'' \<Longrightarrow>
   appReducer env s a =
     (if \<not> isValid (validateAction a) then Some s else reduceToggleComplete s (get a ''payload''))"
  by (simp add: appReducer_def)

lemma dispatch_REORDER_TASKS:
  "get a ''type'' = JStr ''REORDER_TASKS'' \<Longrightarrow>
   appReducer env s a =
     (if \<not> isValid (validateAction a) then Some s else reduceReorderTasks s (get a ''payload''))"
  by (simp add: appReducer_def)

lemma dispatch_SET_VIEW:
  "get a ''type'' = JStr ''SET_VIEW'' \<Longrightarrow>
   appReducer env s a =
     (if \<not> isValid (validateAction a) then Some s else reduceSetView s (get a ''payload''))"
  by (simp add: appReducer_def)

lemma dispatch_TOGGLE_MULTI_SELECT:
  "get a ''type'' = JStr ''TOGGLE_MULTI_SELECT'' \<Longrightarrow>
   appReducer env s a =
     (if \<not> isValid (validateAction a) then Some s else reduceToggleMultiSelect s)"
  by (simp add: appReducer_def)

lemma dispatch_TOGGLE_TASK_SELECTION:
  "get a ''type'' = JStr ''TOGGLE_TASK_SELECTION'' \<Longrightarrow>
   appReducer env s a =
     (if \<not> isValid (validateAction a) then Some s else reduceToggleTaskSelection s (get a ''payload''))"
  by (simp add: appReducer_def)

lemma dispatch_CLEAR_SELECTIONS:
  "get a ''type'' = JStr ''CLEAR_SELECTIONS'' \<Longrightarrow>
   appReducer env s a =
     (if \<not> isValid (validateAction a) then Some s else reduceClearSelections s)"
  by (simp add: appReducer_def)

lemma dispatch_SET_REORDER_MODE:
  "get a ''type'' = JStr ''SET_REORDER_MODE'' \<Longrightarrow>
   appReducer env s a =
     (if \<not> isValid (validateAction a) then Some s else reduceSetReorderMode s (get a ''payload''))"
  by (simp add: appReducer_def)

lemma dispatch_SET_EDITING_TASK:
  "get a ''type'' = JStr ''SET_EDITING_TASK'' \<Longrightarrow>
   appReducer env s a =
     (if \<not> isValid (validateAction a) then Some s else reduceSetEditingTask s (get a ''payload''))"
  by (simp add: appReducer_def)

lemma dispatch_SET_THEME:
  "get a ''type'' = JStr ''SET_THEME'' \<Longrightarrow>
   appReducer env s a =
     (if \<not> isValid (validateAction a) then Some s else reduceSetTheme s (get a ''payload''))"
  by (simp add: appReducer_def)

lemma dispatch_BATCH_DELETE:
  "get a ''type'' = JStr ''BATCH_DELETE'' \<Longrightarrow>
   appReducer env s a =
     (if \<not> isValid (validateAction a) then Some s else reduceBatchDelete s (get a ''payload''))"
  by (simp add: appReducer_def)

lemma dispatch_BATCH_COMPLETE:
  "get a ''type'' = JStr ''BATCH_COMPLETE'' \<Longrightarrow>
   appReducer env s a =
     (if \<not> isValid (validateAction a) then Some s else reduceBatchComplete s (get a ''payload''))"
  by (simp add: appReducer_def)

lemma dispatch_SET_TAG_FILTER:
  "get a ''type'' = JStr ''SET_TAG_FILTER'' \<Longrightarrow>
   appReducer env s a =
     (if \<not> isValid (validateAction a) then Some s else reduceSetTagFilter s (get a ''payload''))"
  by (simp add: appReducer_def)

subsection \<open>Rejected actions and ids that match no task\<close>

lemma unknown_type_rejected:
  assumes "get a ''type'' \<notin> JStr ` set knownActionTypes"
  shows "\<not> isValid (validateAction a)"
  using assms by (simp add: validateAction_def knownActionTypes_def Let_def)

lemma rejected_unchanged:
  assumes "\<not> isValid (validateAction a)"
  shows "appReducer env s a = Some s"
  using assms by (simp add: appReducer_def)

lemma singleId_not_found:
  assumes "get a ''type'' = JStr ty"
    and "ty \<in> {''DELETE_TASK'', ''TOGGLE_COMPLETE'', ''TOGGLE_TASK_SELECTION'',
                ''SET_EDITING_TASK''}"
    and "get a ''payload'' = JStr i" and "\<not> taskExists s i"
  shows "appReducer env s a = Some s"
  using assms
  by (auto simp: dispatch_DELETE_TASK dispatch_TOGGLE_COMPLETE dispatch_TOGGLE_TASK_SELECTION
      dispatch_SET_EDITING_TASK reduceDeleteTask_def reduceToggleComplete_def
      reduceToggleTaskSelection_def reduceSetEditingTask_def)

lemma update_not_found:
  assumes "get a ''type'' = JStr ''UPDATE_TASK''"
    and "get (get a ''payload'') ''id'' = JStr i" and "\<not> taskExists s i"
  shows "appReducer env s a = Some s"
  using assms by (simp add: dispatch_UPDATE_TASK reduceUpdateTask_def)

subsection \<open>What an accepted action holds; the reducer's result is defined\<close>

lemma validateTaskId_valid: "isValid (validateTaskId v) \<Longrightarrow> \<exists>s. v = JStr s"
  by (cases v) (simp_all add: validateTaskId_def)

lemma validateIdsLoop_valid: "isValid (validateIdsLoop vs) \<Longrightarrow> \<exists>ss. asStrings vs = Some ss"
proof (induction vs)
  case Nil
  then show ?case by simp
next
  case (Cons v vs)
  then show ?case
    by (cases v) (auto simp: validateTaskId_def Let_def split: if_splits)
qed

lemma validateTagsLoop_valid: "isValid (validateTagsLoop vs) \<Longrightarrow> \<exists>ss. asStrings vs = Some ss"
proof (induction vs)
  case Nil
  then show ?case by simp
next
  case (Cons v vs)
  then show ?case
    by (cases v) (auto split: if_splits)
qed

lemma validateTaskInput_valid:
  assumes "isValid (validateTaskInput p)"
  shows "\<exists>d. asString (get p ''description'') = Some d"
    and "truthy (get p ''priority'') \<Longrightarrow> \<exists>q. asPriority (get p ''priority'') = Some q"
    and "get p ''dueDate'' \<noteq> JUndefined \<Longrightarrow> \<exists>dd. asNullable asNumber (get p ''dueDate'') = Some dd"
    and "truthy (get p ''tags'') \<Longrightarrow> \<exists>tg. asStringArray (get p ''tags'') = Some tg"
proof -
  from assms have d: "isValid (validateTaskDescription (get p ''description''))"
    and q: "get p ''priority'' = JUndefined \<or> validatePriority (get p ''priority'')"
    and dd: "isValid (validateDueDate (get p ''dueDate''))"
    and tg: "isValid (validateTags (get p ''tags''))"
    by (auto simp: validateTaskInput_def Let_def split: if_splits)
  from d show "\<exists>d. asString (get p ''description'') = Some d"
    by (cases "get p ''description''") (simp_all add: validateTaskDescription_def)
  from q show "truthy (get p ''priority'') \<Longrightarrow> \<exists>q. asPriority (get p ''priority'') = Some q"
    by (auto simp: validatePriority_def asPriority_def)
  from dd show "get p ''dueDate'' \<noteq> JUndefined \<Longrightarrow> \<exists>dd. asNullable asNumber (get p ''dueDate'') = Some dd"
    by (cases "get p ''dueDate''") (simp_all add: validateDueDate_def)
  from tg show "truthy (get p ''tags'') \<Longrightarrow> \<exists>tg. asStringArray (get p ''tags'') = Some tg"
    by (cases "get p ''tags''") (auto simp: validateTags_def dest: validateTagsLoop_valid split: if_splits)
qed

lemma reduceAddTask_total:
  assumes "isValid (validateTaskInput p)"
  shows "reduceAddTask env s p \<noteq> None"
  using validateTaskInput_valid [OF assms]
  by (auto simp: reduceAddTask_def Let_def)

lemma validateReorderIndices_valid:
  assumes "isValid (validateReorderIndices f t n)"
  shows "\<exists>i j. asIndex f = Some i \<and> asIndex t = Some j \<and> i < n \<and> j < n
          \<and> f = JNum (Num (of_nat i)) \<and> t = JNum (Num (of_nat j))"
proof -
  from assms obtain x y where f: "f = JNum x" and t: "t = JNum y"
    by (cases f; cases t) (simp_all add: validateReorderIndices_def)
  from assms f t obtain a b where x: "x = Num a" and y: "y = Num b"
    by (cases x; cases y) (simp_all add: validateReorderIndices_def)
  from assms have *: "of_int (floor a) = a" "of_int (floor b) = b" "0 \<le> a" "0 \<le> b"
    "a < of_nat n" "b < of_nat n"
    unfolding f t x y by (auto simp: validateReorderIndices_def split: if_splits)
  have "a = of_nat (nat (floor a))" "b = of_nat (nat (floor b))"
    using * by (metis of_int_of_nat_eq of_nat_nat zero_le_floor)+
  moreover have "nat (floor a) < n" "nat (floor b) < n"
    using * by (simp_all add: floor_less_iff nat_less_iff)
  ultimately show ?thesis using * f t x y by auto
qed


lemma valid_ADD_TASK:
  "isValid (validateAction a) \<Longrightarrow> get a ''type'' = JStr ''ADD_TASK'' \<Longrightarrow>
   isValid (validateTaskInput (get a ''payload''))"
  by (simp add: validateAction_def Let_def split: if_splits)

lemma valid_UPDATE_TASK:
  "isValid (validateAction a) \<Longrightarrow> get a ''type'' = JStr ''UPDATE_TASK'' \<Longrightarrow>
   isValid (validateTaskId (get (get a ''payload'') ''id''))
   \<and> \<not> notObject (get (get a ''payload'') ''updates'')"
  by (simp add: validateAction_def Let_def split: if_splits)

lemma valid_single_id:
  "isValid (validateAction a) \<Longrightarrow>
   get a ''type'' = JStr ''DELETE_TASK'' \<or> get a ''type'' = JStr ''TOGGLE_COMPLETE''
     \<or> get a ''type'' = JStr ''TOGGLE_TASK_SELECTION'' \<Longrightarrow>
   isValid (validateTaskId (get a ''payload''))"
  by (auto simp: validateAction_def Let_def split: if_splits)

lemma valid_SET_VIEW:
  "isValid (validateAction a) \<Longrightarrow> get a ''type'' = JStr ''SET_VIEW'' \<Longrightarrow>
   validateViewType (get a ''payload'')"
  by (simp add: validateAction_def Let_def split: if_splits)

lemma valid_SET_REORDER_MODE:
  "isValid (validateAction a) \<Longrightarrow> get a ''type'' = JStr ''SET_REORDER_MODE'' \<Longrightarrow>
   typeof (get a ''payload'') = ''boolean''"
  by (simp add: validateAction_def Let_def split: if_splits)

lemma valid_SET_EDITING_TASK:
  "isValid (validateAction a) \<Longrightarrow> get a ''type'' = JStr ''SET_EDITING_TASK'' \<Longrightarrow>
   get a ''payload'' = JNull \<or> isValid (validateTaskId (get a ''payload''))"
  by (simp add: validateAction_def Let_def split: if_splits)

lemma valid_SET_TAG_FILTER:
  "isValid (validateAction a) \<Longrightarrow> get a ''type'' = JStr ''SET_TAG_FILTER'' \<Longrightarrow>
   get a ''payload'' = JNull \<or> typeof (get a ''payload'') = ''string''"
  by (simp add: validateAction_def Let_def split: if_splits)

lemma valid_BATCH:
  "isValid (validateAction a) \<Longrightarrow>
   get a ''type'' = JStr ''BATCH_DELETE'' \<or> get a ''type'' = JStr ''BATCH_COMPLETE'' \<Longrightarrow>
   \<exists>ids. get a ''payload'' = JArr ids \<and> isValid (validateIdsLoop ids)"
  by (auto simp: validateAction_def Let_def split: if_splits jsval.splits)

lemma valid_known:
  "isValid (validateAction a) \<Longrightarrow> get a ''type'' \<in> JStr ` set knownActionTypes"
  using unknown_type_rejected by blast

lemma typeof_boolean: "typeof v = ''boolean'' \<Longrightarrow> \<exists>b. v = JBool b"
  by (cases v) simp_all

lemma typeof_string: "typeof v = ''string'' \<Longrightarrow> \<exists>s. v = JStr s"
  by (cases v) simp_all

lemma appReducer_total:
  assumes "appReducer env s a = None"
  shows "get a ''type'' = JStr ''UPDATE_TASK''
         \<and> asTaskUpdates (get (get a ''payload'') ''updates'') = None"
proof -
  from assms have v: "isValid (validateAction a)"
    by (auto simp: appReducer_def split: if_splits)
  from valid_known [OF v] consider
      "get a ''type'' = JStr ''ADD_TASK''" | "get a ''type'' = JStr ''UPDATE_TASK''"
    | "get a ''type'' = JStr ''DELETE_TASK'' \<or> get a ''type'' = JStr ''TOGGLE_COMPLETE''
        \<or> get a ''type'' = JStr ''TOGGLE_TASK_SELECTION''"
    | "get a ''type'' = JStr ''REORDER_TASKS''" | "get a ''type'' = JStr ''SET_VIEW''"
    | "get a ''type'' = JStr ''TOGGLE_MULTI_SELECT'' \<or> get a ''type'' = JStr ''CLEAR_SELECTIONS''
        \<or> get a ''type'' = JStr ''SET_THEME''"
    | "get a ''type'' = JStr ''SET_REORDER_MODE''" | "get a ''type'' = JStr ''SET_EDITING_TASK''"
    | "get a ''type'' = JStr ''BATCH_DELETE'' \<or> get a ''type'' = JStr ''BATCH_COMPLETE''"
    | "get a ''type'' = JStr ''SET_TAG_FILTER''"
    by (auto simp: knownActionTypes_def)
  then show ?thesis
  proof cases
    case 1
    with assms v reduceAddTask_total [OF valid_ADD_TASK [OF v 1], of env s]
    show ?thesis by (simp add: dispatch_ADD_TASK)
  next
    case 2
    from validateTaskId_valid valid_UPDATE_TASK [OF v 2]
    obtain i where "get (get a ''payload'') ''id'' = JStr i" by blast
    with assms v 2 show ?thesis
      by (auto simp: dispatch_UPDATE_TASK reduceUpdateTask_def split: if_splits option.splits)
  next
    case 3
    from validateTaskId_valid valid_single_id [OF v 3]
    obtain i where "get a ''payload'' = JStr i" by blast
    with assms v 3 show ?thesis
      by (auto simp: dispatch_DELETE_TASK dispatch_TOGGLE_COMPLETE dispatch_TOGGLE_TASK_SELECTION
          reduceDeleteTask_def reduceToggleComplete_def reduceToggleTaskSelection_def Let_def
          split: if_splits)
  next
    case 4
    with assms v show ?thesis
      by (auto simp: dispatch_REORDER_TASKS reduceReorderTasks_def Let_def
          dest!: validateReorderIndices_valid split: if_splits)
  next
    case 5
    with assms v valid_SET_VIEW [OF v 5] show ?thesis
      by (auto simp: dispatch_SET_VIEW reduceSetView_def validateViewType_def asViewType_def
          split: option.splits)
  next
    case 6
    with assms v show ?thesis
      by (auto simp: dispatch_TOGGLE_MULTI_SELECT dispatch_CLEAR_SELECTIONS dispatch_SET_THEME
          reduceToggleMultiSelect_def reduceClearSelections_def reduceSetTheme_def)
  next
    case 7
    with assms v typeof_boolean [OF valid_SET_REORDER_MODE [OF v 7]] show ?thesis
      by (auto simp: dispatch_SET_REORDER_MODE reduceSetReorderMode_def)
  next
    case 8
    from valid_SET_EDITING_TASK [OF v 8] validateTaskId_valid
    have "get a ''payload'' = JNull \<or> (\<exists>i. get a ''payload'' = JStr i)" by blast
    with assms v 8 show ?thesis
      by (auto simp: dispatch_SET_EDITING_TASK reduceSetEditingTask_def split: if_splits)
  next
    case 9
    with assms v valid_BATCH [OF v 9] validateIdsLoop_valid show ?thesis
      by (fastforce simp: dispatch_BATCH_DELETE dispatch_BATCH_COMPLETE reduceBatchDelete_def
          reduceBatchComplete_def Let_def split: if_splits)
  next
    case 10
    with assms v valid_SET_TAG_FILTER [OF v 10] typeof_string show ?thesis
      by (fastforce simp: dispatch_SET_TAG_FILTER reduceSetTagFilter_def)
  qed
qed

lemmas reduce_defs = reduceAddTask_def reduceUpdateTask_def reduceDeleteTask_def
  reduceToggleComplete_def reduceReorderTasks_def reduceSetView_def reduceToggleMultiSelect_def
  reduceToggleTaskSelection_def reduceClearSelections_def reduceSetReorderMode_def
  reduceSetEditingTask_def reduceSetTheme_def reduceBatchDelete_def reduceBatchComplete_def
  reduceSetTagFilter_def

subsection \<open>Multi-select mode and the selection\<close>

lemma step_selection:
  assumes "appReducer env s a = Some s'"
    and "multiSelectMode (ui s) \<or> selectedTaskIds (ui s) = {}"
    and "get a ''type'' \<noteq> JStr ''TOGGLE_TASK_SELECTION'' \<or> multiSelectMode (ui s)"
  shows "multiSelectMode (ui s') \<or> selectedTaskIds (ui s') = {}"
  using assms unfolding appReducer_def Let_def reduce_defs
  by (auto split: if_splits option.splits prod.splits)

lemma run_selection:
  assumes "run s acts = Some s'"
    and "multiSelectMode (ui s) \<or> selectedTaskIds (ui s) = {}"
    and "togglesInMultiSelectOnly s acts"
  shows "multiSelectMode (ui s') \<or> selectedTaskIds (ui s') = {}"
  using assms
proof (induction acts arbitrary: s)
  case Nil
  then show ?case by simp
next
  case (Cons x acts)
  obtain env a where x: "x = (env, a)" by (cases x)
  from Cons.prems(1) x obtain s1 where s1: "appReducer env s a = Some s1"
    and r: "run s1 acts = Some s'"
    by (auto split: option.splits)
  from Cons.prems(3) x s1
  have t: "get a ''type'' \<noteq> JStr ''TOGGLE_TASK_SELECTION'' \<or> multiSelectMode (ui s)"
    and t': "togglesInMultiSelectOnly s1 acts" by auto
  from step_selection [OF s1 Cons.prems(2) t]
  have "multiSelectMode (ui s1) \<or> selectedTaskIds (ui s1) = {}" .
  from Cons.IH [OF r this t'] show ?case .
qed

subsection \<open>Trimming\<close>

lemma trim_Nil_iff: "trim s = [] \<longleftrightarrow> blank s"
proof -
  have "trim s = [] \<longleftrightarrow> (\<forall>c\<in>set (dropWhile isWhiteSpace s). isWhiteSpace c)"
    by (simp add: trim_def dropWhile_eq_Nil_conv)
  also have "\<dots> \<longleftrightarrow> dropWhile isWhiteSpace s = []"
  proof
    assume a: "\<forall>c\<in>set (dropWhile isWhiteSpace s). isWhiteSpace c"
    show "dropWhile isWhiteSpace s = []"
    proof (rule ccontr)
      assume n: "dropWhile isWhiteSpace s \<noteq> []"
      then have "\<not> isWhiteSpace (hd (dropWhile isWhiteSpace s))" by (rule hd_dropWhile)
      moreover from n have "hd (dropWhile isWhiteSpace s) \<in> set (dropWhile isWhiteSpace s)"
        by simp
      ultimately show False using a by blast
    qed
  next
    assume "dropWhile isWhiteSpace s = []"
    then show "\<forall>c\<in>set (dropWhile isWhiteSpace s). isWhiteSpace c"
      by (simp del: dropWhile_eq_Nil_conv)
  qed
  also have "\<dots> \<longleftrightarrow> blank s"
    by (simp add: dropWhile_eq_Nil_conv blank_def list_all_iff)
  finally show ?thesis .
qed






subsection \<open>Descriptions along a step\<close>

lemma valid_description:
  assumes "isValid (validateTaskInput p)"
  shows "\<exists>d. get p ''description'' = JStr d \<and> \<not> blank d \<and> length (trim d) \<le> 500"
proof -
  from assms have d: "isValid (validateTaskDescription (get p ''description''))"
    by (auto simp: validateTaskInput_def Let_def split: if_splits)
  then obtain d where g: "get p ''description'' = JStr d"
    by (cases "get p ''description''") (simp_all add: validateTaskDescription_def)
  with d have "trim d \<noteq> []" "length (trim d) \<le> 500"
    by (auto simp: validateTaskDescription_def Let_def split: if_splits)
  with g show ?thesis by (auto simp: trim_Nil_iff)
qed

lemma reorder_set:
  assumes "f < length xs" "t < length xs"
  shows "mset (spliceIn t (xs ! f) (spliceOut f xs)) = mset xs"
proof -
  have "mset (spliceIn t (xs ! f) (spliceOut f xs)) = mset (spliceOut f xs) + {#xs ! f#}"
    unfolding spliceIn_def
    by (metis append_take_drop_id mset.simps(2) union_code union_mset_add_mset_right add_mset_add_single)
  also have "\<dots> = mset (take f xs) + mset (drop (Suc f) xs) + {#xs ! f#}"
    by (simp add: spliceOut_def)
  also have "\<dots> = mset (take f xs @ xs ! f # drop (Suc f) xs)" by simp
  also have "\<dots> = mset xs" using assms(1) by (simp only: id_take_nth_drop [symmetric])
  finally show ?thesis .
qed



subsection \<open>Batch deletion\<close>

lemma get_defined_object: "get v k \<noteq> JUndefined \<Longrightarrow> \<not> notObject v"
  by (cases v) (simp_all add: notObject_def)

lemma validateTaskId_JStr: "isValid (validateTaskId (JStr i)) \<longleftrightarrow> \<not> blank i"
  by (simp add: validateTaskId_def trim_Nil_iff)

lemma validateIdsLoop_strings:
  "isValid (validateIdsLoop (map JStr P)) \<longleftrightarrow> list_all (\<lambda>i. \<not> blank i) P"
  by (induction P) (auto simp: Let_def validateTaskId_JStr)

lemma asStrings_strings: "asStrings (map JStr P) = Some P"
  by (induction P) auto

lemma valid_BATCH_DELETE_strings:
  assumes "get a ''type'' = JStr ''BATCH_DELETE''"
    and "get a ''payload'' = JArr (map JStr P)"
  shows "isValid (validateAction a) \<longleftrightarrow> list_all (\<lambda>i. \<not> blank i) P"
proof -
  from assms(1) have "\<not> notObject a" by (intro get_defined_object [of a "''type''"]) simp
  with assms show ?thesis
    by (simp add: validateAction_def Let_def validateIdsLoop_strings)
qed

lemma filter_existing_Nil:
  "filter (\<lambda>i. i \<in> set (map f xs)) P = [] \<longleftrightarrow> set P \<inter> f ` set xs = {}"
  by (auto simp: filter_empty_conv)

lemma distinct_count_ids:
  assumes "distinct (map f xs)"
  shows "length (filter (\<lambda>t. f t \<in> A) xs) = card (A \<inter> f ` set xs)"
proof -
  from assms have d: "distinct xs" and inj: "inj_on f (set xs)"
    by (simp_all add: distinct_map)
  have "length (filter (\<lambda>t. f t \<in> A) xs) = card {t \<in> set xs. f t \<in> A}"
    using d by (simp add: distinct_length_filter Int_def conj_commute)
  also have "\<dots> = card (f ` {t \<in> set xs. f t \<in> A})"
    by (rule card_image [symmetric]) (rule inj_on_subset [OF inj], auto)
  also have "f ` {t \<in> set xs. f t \<in> A} = A \<inter> f ` set xs" by auto
  finally show ?thesis .
qed

lemma reduceBatchDelete_strings:
  "reduceBatchDelete s (JArr (map JStr P)) =
    (if set P \<inter> id_t ` set (tasks s) = {} then Some s
     else Some (s\<lparr>tasks := filter (\<lambda>t. id_t t \<notin> set P) (tasks s),
                  ui := (ui s)\<lparr>selectedTaskIds := {}, multiSelectMode := False\<rparr>\<rparr>))"
proof -
  have "filter (\<lambda>t. id_t t \<notin> set (filter (\<lambda>i. i \<in> set (map id_t (tasks s))) P)) (tasks s)
        = filter (\<lambda>t. id_t t \<notin> set P) (tasks s)"
    by (rule filter_cong) auto
  then show ?thesis
    by (simp add: reduceBatchDelete_def asStrings_strings Let_def filter_existing_Nil
        del: set_filter set_map)
qed

lemma length_filter_complement:
  "length (filter (\<lambda>t. \<not> Q t) xs) = length xs - length (filter Q xs)"
  using sum_length_filter_compl [of Q xs] by simp

subsection \<open>Adding and reordering\<close>

lemma reduceAddTask_valid:
  assumes "isValid (validateTaskInput p)"
  shows "\<exists>d q dd tg. get p ''description'' = JStr d \<and> \<not> blank d \<and> length (trim d) \<le> 500
          \<and> reduceAddTask env s p = Some (s\<lparr>tasks := tasks s @
               [\<lparr>id_t = generateId env, description = trim d, completed = False,
                 createdAt = Num (of_int (createdTimestamp env)), priority = q,
                 dueDate = dd, tags = tg\<rparr>]\<rparr>)"
proof -
  from valid_description [OF assms] obtain d
    where d: "get p ''description'' = JStr d" "\<not> blank d" "length (trim d) \<le> 500" by blast
  from validateTaskInput_valid(2-4) [OF assms] obtain q dd tg where
    "(if truthy (get p ''priority'') then asPriority (get p ''priority'') else Some Medium)
       = Some q"
    "(if get p ''dueDate'' = JUndefined then Some None
      else asNullable asNumber (get p ''dueDate'')) = Some dd"
    "(if truthy (get p ''tags'') then asStringArray (get p ''tags'') else Some []) = Some tg"
    by (cases "truthy (get p ''priority'')"; cases "get p ''dueDate'' = JUndefined";
        cases "truthy (get p ''tags'')") auto
  with d have "reduceAddTask env s p = Some (s\<lparr>tasks := tasks s @
               [\<lparr>id_t = generateId env, description = trim d, completed = False,
                 createdAt = Num (of_int (createdTimestamp env)), priority = q,
                 dueDate = dd, tags = tg\<rparr>]\<rparr>)"
    by (simp add: reduceAddTask_def)
  with d show ?thesis by blast
qed

lemma spliceOut_length: "i < length xs \<Longrightarrow> length (spliceOut i xs) = length xs - 1"
  by (simp add: spliceOut_def)

lemma spliceIn_nth: "j \<le> length xs \<Longrightarrow> spliceIn j x xs ! j = x"
  by (simp add: spliceIn_def nth_append)

lemma asIndex_of_nat: "asIndex (JNum (Num (of_nat i))) = Some i"
  by simp

lemma validateReorderIndices_iff:
  "isValid (validateReorderIndices f t n) \<longleftrightarrow>
   (\<exists>i j. f = JNum (Num (of_nat i)) \<and> t = JNum (Num (of_nat j)) \<and> i < n \<and> j < n)"
proof
  assume "isValid (validateReorderIndices f t n)"
  from validateReorderIndices_valid [OF this]
  show "\<exists>i j. f = JNum (Num (of_nat i)) \<and> t = JNum (Num (of_nat j)) \<and> i < n \<and> j < n"
    by blast
next
  assume "\<exists>i j. f = JNum (Num (of_nat i)) \<and> t = JNum (Num (of_nat j)) \<and> i < n \<and> j < n"
  then show "isValid (validateReorderIndices f t n)"
    by (auto simp: validateReorderIndices_def)
qed

subsection \<open>Toggling and updating\<close>

lemma toggled_toggled: "toggled i (toggled i ts) = ts"
  by (induction ts) (simp_all add: toggled_def)

lemma toggled_ids: "map id_t (toggled i ts) = map id_t ts"
  by (induction ts) (simp_all add: toggled_def)

lemma reduceToggleComplete_found:
  assumes "i \<in> id_t ` set (tasks s)"
  shows "reduceToggleComplete s (JStr i) = Some (s\<lparr>tasks := toggled i (tasks s)\<rparr>)"
  using assms by (simp add: reduceToggleComplete_def taskExists_iff toggled_def)

lemma valid_TOGGLE_COMPLETE_string:
  assumes "get a ''type'' = JStr ''TOGGLE_COMPLETE''" and "get a ''payload'' = JStr i"
  shows "isValid (validateAction a) \<longleftrightarrow> \<not> blank i"
proof -
  from assms(1) have "\<not> notObject a" by (intro get_defined_object [of a "''type''"]) simp
  with assms show ?thesis
    by (simp add: validateAction_def Let_def validateTaskId_JStr)
qed

lemma toggle_step:
  assumes "get a ''type'' = JStr ''TOGGLE_COMPLETE''" and "get a ''payload'' = JStr i"
    and "i \<in> id_t ` set (tasks s)"
  shows "appReducer env s a = Some (if blank i then s else s\<lparr>tasks := toggled i (tasks s)\<rparr>)"
  using assms
  by (simp add: dispatch_TOGGLE_COMPLETE valid_TOGGLE_COMPLETE_string reduceToggleComplete_found)



subsection \<open>The upcoming tasks\<close>







subsection \<open>Memoization\<close>

lemma createSelector_first:
  "snd (snd (createSelector inp f eq newCache s)) = 1"
  by (simp add: createSelector_def newCache_def Let_def)

lemma createSelector_second:
  assumes "createSelector inp f eq c0 s1 = (r1, c1, n1)"
    and "createSelector inp f eq c1 s2 = (r2, c2, n2)"
    and "n1 = 1" and "inp s1 \<noteq> None" and "eq (inp s1) (inp s2)"
  shows "r2 = r1 \<and> c2 = c1 \<and> n1 + n2 = 1"
proof -
  from assms(1,3) have c1: "c1 = \<lparr>lastInput = inp s1, lastResult = f (inp s1), hasRun = True\<rparr>"
    and r1: "r1 = f (inp s1)"
    by (auto simp: createSelector_def Let_def split: if_splits)
  from assms(2,4,5) show ?thesis
    unfolding c1 r1 by (auto simp: createSelector_def Let_def assms(3))
qed

lemma createSelector_refines:
  assumes "\<And>x y. x \<noteq> None \<Longrightarrow> eq x y \<Longrightarrow> f y = f x" and "cacheOf f c"
  shows "fst (createSelector inp f eq c s) = f (inp s)"
    and "cacheOf f (fst (snd (createSelector inp f eq c s)))"
proof -
  show "fst (createSelector inp f eq c s) = f (inp s)"
  proof (cases "hasRun c \<and> lastInput c \<noteq> None \<and> eq (lastInput c) (inp s)")
    case True
    with assms(1) [of "lastInput c" "inp s"] have "f (inp s) = f (lastInput c)" by blast
    with True assms(2) show ?thesis
      by (simp add: createSelector_def cacheOf_def)
  next
    case False
    then show ?thesis by (auto simp: createSelector_def Let_def)
  qed
  from assms(2) show "cacheOf f (fst (snd (createSelector inp f eq c s)))"
    by (simp add: createSelector_def Let_def cacheOf_def)
qed

lemma calls_refines:
  assumes "\<And>x y. x \<noteq> None \<Longrightarrow> eq x y \<Longrightarrow> f y = f x" and "cacheOf f c"
  shows "fst (calls (createSelector inp f eq) c states) = map (\<lambda>s. f (inp s)) states"
  using assms(2)
proof (induction states arbitrary: c)
  case Nil
  then show ?case by simp
next
  case (Cons s states)
  obtain r c' n where 1: "createSelector inp f eq c s = (r, c', n)"
    by (cases "createSelector inp f eq c s") 
  from createSelector_refines [OF assms(1) Cons.prems, of eq inp s] 1
  have r: "r = f (inp s)" and c': "cacheOf f c'" by auto
  obtain rs c'' m where 2: "calls (createSelector inp f eq) c' states = (rs, c'', m)"
    by (cases "calls (createSelector inp f eq) c' states")
  from Cons.IH [OF c'] 2 have "rs = map (\<lambda>s. f (inp s)) states" by simp
  with 1 2 r show ?case by simp
qed

section \<open>C1: rejected actions and unknown ids leave the state as it is\<close>

text \<open>
  Claim C1. For every state \<open>s\<close> and every action \<open>a\<close> that \<open>validateAction\<close> rejects
  (a malformed payload, or a type outside the fifteen known action types),
  \<open>appReducer\<close> returns \<open>s\<close> itself. Likewise, for every DELETE_TASK, TOGGLE_COMPLETE,
  SET_EDITING_TASK or TOGGLE_TASK_SELECTION action whose payload is an id string that no
  task of \<open>s\<close> carries, and for every UPDATE_TASK action whose \<^verbatim>\<open>payload.id\<close> is such a
  string, \<open>appReducer\<close> returns \<open>s\<close> itself.
\<close>

theorem appReducer_noop_on_rejected_or_unknown_id:
  "(\<not> isValid (validateAction a) \<longrightarrow> appReducer env s a = Some s)
   \<and> (get a ''type'' \<notin> JStr ` set knownActionTypes \<longrightarrow>
        \<not> isValid (validateAction a) \<and> appReducer env s a = Some s)
   \<and> (\<forall>ty i. get a ''type'' = JStr ty
          \<and> ty \<in> {''DELETE_TASK'', ''TOGGLE_COMPLETE'', ''TOGGLE_TASK_SELECTION'',
                   ''SET_EDITING_TASK''}
          \<and> get a ''payload'' = JStr i \<and> i \<notin> id_t ` set (tasks s)
        \<longrightarrow> appReducer env s a = Some s)
   \<and> (\<forall>i. get a ''type'' = JStr ''UPDATE_TASK''
          \<and> get (get a ''payload'') ''id'' = JStr i \<and> i \<notin> id_t ` set (tasks s)
        \<longrightarrow> appReducer env s a = Some s)"
proof (intro conjI allI impI)
  assume "\<not> isValid (validateAction a)"
  then show "appReducer env s a = Some s" by (rule rejected_unchanged)
next
  assume u: "get a ''type'' \<notin> JStr ` set knownActionTypes"
  then show "\<not> isValid (validateAction a)" by (rule unknown_type_rejected)
  from u show "appReducer env s a = Some s"
    by (intro rejected_unchanged unknown_type_rejected)
next
  fix ty i
  assume "get a ''type'' = JStr ty
          \<and> ty \<in> {''DELETE_TASK'', ''TOGGLE_COMPLETE'', ''TOGGLE_TASK_SELECTION'',
                   ''SET_EDITING_TASK''}
          \<and> get a ''payload'' = JStr i \<and> i \<notin> id_t ` set (tasks s)"
  then show "appReducer env s a = Some s"
    using singleId_not_found [of a ty i s env] by (simp add: taskExists_iff)
next
  fix i
  assume "get a ''type'' = JStr ''UPDATE_TASK''
          \<and> get (get a ''payload'') ''id'' = JStr i \<and> i \<notin> id_t ` set (tasks s)"
  then show "appReducer env s a = Some s"
    using update_not_found [of a i s env] by (simp add: taskExists_iff)
qed

theorem appReducer_noop_on_rejected_or_unknown_id_witness:
  "\<not> isValid (validateAction (mkAction ''ADD_TASK'' (JObj [(''description'', JStr ''   '')])))
   \<and> appReducer env0 threeTasks (mkAction ''ADD_TASK'' (JObj [(''description'', JStr ''   '')]))
       = Some threeTasks
   \<and> appReducer env0 threeTasks (mkAction ''RENAME_TASK'' (JStr ''1'')) = Some threeTasks
   \<and> appReducer env0 threeTasks (mkAction ''DELETE_TASK'' (JStr ''9'')) = Some threeTasks
   \<and> appReducer env0 threeTasks
        (mkAction ''UPDATE_TASK''
          (JObj [(''id'', JStr ''9''), (''updates'', JObj [(''completed'', JBool True)])]))
       = Some threeTasks"
proof -
  let ?bad = "mkAction ''ADD_TASK'' (JObj [(''description'', JStr ''   '')])"
  let ?unknown = "mkAction ''RENAME_TASK'' (JStr ''1'')"
  let ?del = "mkAction ''DELETE_TASK'' (JStr ''9'')"
  let ?upd = "mkAction ''UPDATE_TASK''
          (JObj [(''id'', JStr ''9''), (''updates'', JObj [(''completed'', JBool True)])])"
  have ids: "''9'' \<notin> id_t ` set (tasks threeTasks)"
    by (simp add: threeTasks_def task1_def task2_def task3_def)
  have bad: "\<not> isValid (validateAction ?bad)"
    by code_simp
  have unknown: "get ?unknown ''type'' \<notin> JStr ` set knownActionTypes"
    by (simp add: mkAction_def knownActionTypes_def)
  have del: "get ?del ''type'' = JStr ''DELETE_TASK'' \<and> get ?del ''payload'' = JStr ''9''"
    by (simp add: mkAction_def)
  have upd: "get ?upd ''type'' = JStr ''UPDATE_TASK''
             \<and> get (get ?upd ''payload'') ''id'' = JStr ''9''"
    by (simp add: mkAction_def)
  note c1 = appReducer_noop_on_rejected_or_unknown_id
  from bad c1 [of ?bad env0 threeTasks]
  have 1: "appReducer env0 threeTasks ?bad = Some threeTasks" by blast
  from unknown c1 [of ?unknown env0 threeTasks]
  have 2: "appReducer env0 threeTasks ?unknown = Some threeTasks" by blast
  from del ids c1 [of ?del env0 threeTasks]
  have 3: "appReducer env0 threeTasks ?del = Some threeTasks" by blast
  from upd ids c1 [of ?upd env0 threeTasks]
  have 4: "appReducer env0 threeTasks ?upd = Some threeTasks" by blast
  from bad 1 2 3 4 show ?thesis by blast
qed

section \<open>C2: the selection outside multi-select mode\<close>

text \<open>
  Claim C2 says that in every state reachable from the initial state,
  \<open>multiSelectMode = false\<close> implies that \<open>selectedTaskIds\<close> is empty. The reducer
  does not look at \<open>multiSelectMode\<close> when it handles TOGGLE_TASK_SELECTION (the
  components do, before they dispatch): after ADD_TASK and a TOGGLE_TASK_SELECTION of the
  new task, the task is selected and the mode is still off.
\<close>

theorem selection_outside_multiSelect_counterexample:
  "run (initialState JNull) selectWithoutMode = Some milkSelected
   \<and> multiSelectMode (ui milkSelected) = False
   \<and> selectedTaskIds (ui milkSelected) = {''task_5_i''}"
  by code_simp

text \<open>
  Claim C2, amended. In every state reachable from the initial state by a sequence of
  \<open>appReducer\<close> applications in which every TOGGLE_TASK_SELECTION is applied to a state
  with \<open>multiSelectMode = true\<close>, \<open>multiSelectMode = false\<close> implies that
  \<open>selectedTaskIds\<close> is empty.
\<close>

theorem selection_empty_outside_multiSelect:
  "run (initialState th) acts = Some s \<and> togglesInMultiSelectOnly (initialState th) acts
   \<longrightarrow> (\<not> multiSelectMode (ui s) \<longrightarrow> selectedTaskIds (ui s) = {})"
proof (intro impI)
  assume h: "run (initialState th) acts = Some s
             \<and> togglesInMultiSelectOnly (initialState th) acts"
    and m: "\<not> multiSelectMode (ui s)"
  have "multiSelectMode (ui (initialState th)) \<or> selectedTaskIds (ui (initialState th)) = {}"
    by (simp add: initialState_def)
  with h run_selection [of "initialState th" acts s]
  have "multiSelectMode (ui s) \<or> selectedTaskIds (ui s) = {}" by blast
  with m show "selectedTaskIds (ui s) = {}" by blast
qed

theorem selection_empty_outside_multiSelect_witness:
  "run (initialState JNull) selectWithinMode = Some milkState
   \<and> togglesInMultiSelectOnly (initialState JNull) selectWithinMode
   \<and> multiSelectMode (ui milkState) = False
   \<and> selectedTaskIds (ui milkState) = {}"
proof -
  have r: "run (initialState JNull) selectWithinMode = Some milkState" by code_simp
  have t: "togglesInMultiSelectOnly (initialState JNull) selectWithinMode" by code_simp
  have m: "multiSelectMode (ui milkState) = False" by code_simp
  from selection_empty_outside_multiSelect [of JNull selectWithinMode milkState] r t m
  have "selectedTaskIds (ui milkState) = {}" by blast
  with r t m show ?thesis by blast
qed

section \<open>C3: descriptions of the tasks of a reachable state\<close>




section \<open>C4: BATCH_DELETE\<close>

text \<open>
  Claim C4 describes BATCH_DELETE with a payload \<open>P\<close> of valid id strings and ends: the
  final task count equals the initial count minus the size of the intersection of \<open>P\<close>
  with the ids of the tasks. The reducer removes every task whose id is in \<open>P\<close>, and
  nothing in it keeps the ids of the tasks apart: in the reachable state \<open>twinState\<close>
  two tasks carry the id \<^verbatim>\<open>task_5_i\<close>, the intersection with \<open>P = [task_5_i]\<close> has one
  element, and both tasks are removed.
\<close>

theorem batch_delete_count_counterexample:
  "run (initialState JNull) makeTwins = Some twinState
   \<and> appReducer env0 twinState (mkAction ''BATCH_DELETE'' (JArr [JStr ''task_5_i'']))
       = Some (initialState JNull)
   \<and> length (tasks twinState) = 2
   \<and> card (set [''task_5_i''] \<inter> id_t ` set (tasks twinState)) = 1
   \<and> length (tasks (initialState JNull)) = 0"
  by code_simp

text \<open>
  Claim C4, amended. For every state \<open>s\<close> and every BATCH_DELETE action whose payload
  is an array of valid id strings \<open>P\<close>: if the intersection of \<open>P\<close> with the ids of
  \<open>s.tasks\<close> is empty, \<open>appReducer\<close> returns \<open>s\<close> unchanged; otherwise the resulting
  tasks are exactly the tasks of \<open>s.tasks\<close> whose id is not in \<open>P\<close>, in their order,
  \<open>ui.selectedTaskIds\<close> becomes empty and \<open>ui.multiSelectMode\<close> becomes false, so the
  final task count is the initial count minus the number of tasks whose id is in \<open>P\<close>;
  when the ids of \<open>s.tasks\<close> are pairwise distinct, that number is the size of the
  intersection.
\<close>

theorem batch_delete_effect:
  "get a ''type'' = JStr ''BATCH_DELETE'' \<and> get a ''payload'' = JArr (map JStr P)
   \<and> list_all (\<lambda>i. \<not> blank i) P
   \<longrightarrow>
     (set P \<inter> id_t ` set (tasks s) = {} \<longrightarrow> appReducer env s a = Some s)
   \<and> (set P \<inter> id_t ` set (tasks s) \<noteq> {} \<longrightarrow>
        appReducer env s a =
          Some (s\<lparr>tasks := filter (\<lambda>t. id_t t \<notin> set P) (tasks s),
                  ui := (ui s)\<lparr>selectedTaskIds := {}, multiSelectMode := False\<rparr>\<rparr>)
        \<and> length (filter (\<lambda>t. id_t t \<notin> set P) (tasks s))
            = length (tasks s) - length (filter (\<lambda>t. id_t t \<in> set P) (tasks s))
        \<and> (distinct (map id_t (tasks s)) \<longrightarrow>
             length (filter (\<lambda>t. id_t t \<notin> set P) (tasks s))
               = length (tasks s) - card (set P \<inter> id_t ` set (tasks s))))"
proof (intro impI)
  assume h: "get a ''type'' = JStr ''BATCH_DELETE'' \<and> get a ''payload'' = JArr (map JStr P)
             \<and> list_all (\<lambda>i. \<not> blank i) P"
  then have v: "isValid (validateAction a)"
    using valid_BATCH_DELETE_strings [of a P] by blast
  from h v have r: "appReducer env s a = reduceBatchDelete s (JArr (map JStr P))"
    by (simp add: dispatch_BATCH_DELETE)
  have n: "length (filter (\<lambda>t. id_t t \<notin> set P) (tasks s))
            = length (tasks s) - length (filter (\<lambda>t. id_t t \<in> set P) (tasks s))"
    by (rule length_filter_complement)
  show "(set P \<inter> id_t ` set (tasks s) = {} \<longrightarrow> appReducer env s a = Some s)
   \<and> (set P \<inter> id_t ` set (tasks s) \<noteq> {} \<longrightarrow>
        appReducer env s a =
          Some (s\<lparr>tasks := filter (\<lambda>t. id_t t \<notin> set P) (tasks s),
                  ui := (ui s)\<lparr>selectedTaskIds := {}, multiSelectMode := False\<rparr>\<rparr>)
        \<and> length (filter (\<lambda>t. id_t t \<notin> set P) (tasks s))
            = length (tasks s) - length (filter (\<lambda>t. id_t t \<in> set P) (tasks s))
        \<and> (distinct (map id_t (tasks s)) \<longrightarrow>
             length (filter (\<lambda>t. id_t t \<notin> set P) (tasks s))
               = length (tasks s) - card (set P \<inter> id_t ` set (tasks s))))"
    unfolding r reduceBatchDelete_strings n
    by (simp add: distinct_count_ids)
qed

text \<open>The test of the specification: ids \<open>[1, 2, x]\<close> on the tasks 1, 2 and 3.\<close>

theorem batch_delete_effect_witness:
  "list_all (\<lambda>i. \<not> blank i) [''1'', ''2'', ''x'']
   \<and> set [''1'', ''2'', ''x''] \<inter> id_t ` set (tasks threeTasks) = {''1'', ''2''}
   \<and> distinct (map id_t (tasks threeTasks))
   \<and> appReducer env0 threeTasks
        (mkAction ''BATCH_DELETE'' (JArr (map JStr [''1'', ''2'', ''x''])))
       = Some (threeTasks\<lparr>tasks := [task3]\<rparr>)
   \<and> length [task3] = length (tasks threeTasks) - 2
   \<and> appReducer env0 threeTasks (mkAction ''BATCH_DELETE'' (JArr (map JStr [''x''])))
       = Some threeTasks"
proof -
  let ?P = "[''1'', ''2'', ''x'']"
  let ?a = "mkAction ''BATCH_DELETE'' (JArr (map JStr ?P))"
  let ?b = "mkAction ''BATCH_DELETE'' (JArr (map JStr [''x'']))"
  have a: "get ?a ''type'' = JStr ''BATCH_DELETE'' \<and> get ?a ''payload'' = JArr (map JStr ?P)"
    and b: "get ?b ''type'' = JStr ''BATCH_DELETE''
            \<and> get ?b ''payload'' = JArr (map JStr [''x''])"
    by (simp_all add: mkAction_def)
  have v: "list_all (\<lambda>i. \<not> blank i) ?P" and w: "list_all (\<lambda>i. \<not> blank i) [''x'']"
    by code_simp+
  have i: "set ?P \<inter> id_t ` set (tasks threeTasks) = {''1'', ''2''}"
    and j: "set [''x''] \<inter> id_t ` set (tasks threeTasks) = {}"
    and d: "distinct (map id_t (tasks threeTasks))"
    by (auto simp: threeTasks_def task1_def task2_def task3_def)
  have f: "filter (\<lambda>t. id_t t \<notin> set ?P) (tasks threeTasks) = [task3]"
    by (simp add: threeTasks_def task1_def task2_def task3_def)
  have u: "(ui threeTasks)\<lparr>selectedTaskIds := {}, multiSelectMode := False\<rparr> = ui threeTasks"
    by (simp add: threeTasks_def initialState_def)
  have c: "card {''1'', ''2''} = (2::nat)" by simp
  have ne: "set ?P \<inter> id_t ` set (tasks threeTasks) \<noteq> {}"
    unfolding i by simp
  from a v have pre: "get ?a ''type'' = JStr ''BATCH_DELETE''
      \<and> get ?a ''payload'' = JArr (map JStr ?P) \<and> list_all (\<lambda>i. \<not> blank i) ?P"
    by blast
  note t = batch_delete_effect [of ?a ?P threeTasks env0, THEN mp, OF pre,
      THEN conjunct2, THEN mp, OF ne]
  from t [THEN conjunct1]
  have 1: "appReducer env0 threeTasks ?a = Some (threeTasks\<lparr>tasks := [task3]\<rparr>)"
    unfolding f u by simp
  from t [THEN conjunct2, THEN conjunct2, THEN mp, OF d]
  have 2: "length [task3] = length (tasks threeTasks) - 2"
    unfolding f i c .
  from b w have pre': "get ?b ''type'' = JStr ''BATCH_DELETE''
      \<and> get ?b ''payload'' = JArr (map JStr [''x'']) \<and> list_all (\<lambda>i. \<not> blank i) [''x'']"
    by blast
  from batch_delete_effect [of ?b "[''x'']" threeTasks env0, THEN mp, OF pre',
      THEN conjunct1, THEN mp, OF j]
  have 3: "appReducer env0 threeTasks ?b = Some threeTasks" .
  from v i d 1 2 3 show ?thesis by blast
qed

section \<open>C5: ADD_TASK\<close>

text \<open>
  Claim C5 says that the task appended by a valid ADD_TASK has an id distinct from the id
  of every task already in the list. The id is \<^verbatim>\<open>task_<Date.now()>_<random suffix>\<close>,
  and the reducer does not compare it with the ids in the list: a second ADD_TASK in
  the same millisecond for which \<^verbatim>\<open>Math.random()\<close> returns the same number appends a
  task with the id of the first.
\<close>

theorem add_task_fresh_id_counterexample:
  "run (initialState JNull) [(env0, addBuyMilk)] = Some milkState
   \<and> isValid (validateAction addBuyMilk)
   \<and> appReducer env0 milkState addBuyMilk = Some (milkState\<lparr>tasks := [milkTask, milkTask]\<rparr>)
   \<and> id_t milkTask \<in> id_t ` set (tasks milkState)"
  by code_simp

text \<open>
  Claim C5, amended. For every state \<open>s\<close> and every ADD_TASK action whose payload
  passes validation, the resulting state has exactly one more task than \<open>s\<close>; the
  appended task has \<open>completed = false\<close>, the payload description with surrounding
  white space trimmed (non-empty and at most 500 characters), and the id that
  \<open>generateId\<close> returns, \<^verbatim>\<open>task_<timestamp>_<suffix>\<close>, which is not compared with the
  ids already in \<open>s.tasks\<close>; all tasks of \<open>s\<close> are unchanged and in place, and so are
  \<open>ui\<close> and \<open>theme\<close>.
\<close>

theorem add_task_effect:
  "get a ''type'' = JStr ''ADD_TASK'' \<and> isValid (validateAction a) \<longrightarrow>
   (\<exists>s' t d.
      appReducer env s a = Some s' \<and> tasks s' = tasks s @ [t]
      \<and> length (tasks s') = length (tasks s) + 1
      \<and> take (length (tasks s)) (tasks s') = tasks s
      \<and> ui s' = ui s \<and> theme s' = theme s
      \<and> get (get a ''payload'') ''description'' = JStr d
      \<and> d \<noteq> [] \<and> \<not> blank d \<and> length (trim d) \<le> 500
      \<and> description t = trim d \<and> completed t = False
      \<and> id_t t = generateId env
      \<and> generateId env = ''task_'' @ showInt (idTimestamp env) @ ''_'' @ idRandomSuffix env)"
proof (intro impI)
  assume h: "get a ''type'' = JStr ''ADD_TASK'' \<and> isValid (validateAction a)"
  then have r: "appReducer env s a = reduceAddTask env s (get a ''payload'')"
    by (simp add: dispatch_ADD_TASK)
  from h have "isValid (validateTaskInput (get a ''payload''))"
    by (simp add: valid_ADD_TASK)
  from reduceAddTask_valid [OF this, of env s] obtain d q dd tg where
    d: "get (get a ''payload'') ''description'' = JStr d" "\<not> blank d" "length (trim d) \<le> 500"
    and e: "reduceAddTask env s (get a ''payload'') = Some (s\<lparr>tasks := tasks s @
               [\<lparr>id_t = generateId env, description = trim d, completed = False,
                 createdAt = Num (of_int (createdTimestamp env)), priority = q,
                 dueDate = dd, tags = tg\<rparr>]\<rparr>)"
    by blast
  from d(2) have "d \<noteq> []" by (auto simp: blank_def)
  with d r e show "\<exists>s' t d.
      appReducer env s a = Some s' \<and> tasks s' = tasks s @ [t]
      \<and> length (tasks s') = length (tasks s) + 1
      \<and> take (length (tasks s)) (tasks s') = tasks s
      \<and> ui s' = ui s \<and> theme s' = theme s
      \<and> get (get a ''payload'') ''description'' = JStr d
      \<and> d \<noteq> [] \<and> \<not> blank d \<and> length (trim d) \<le> 500
      \<and> description t = trim d \<and> completed t = False
      \<and> id_t t = generateId env
      \<and> generateId env = ''task_'' @ showInt (idTimestamp env) @ ''_'' @ idRandomSuffix env"
    by (simp add: generateId_def)
qed

theorem add_task_effect_witness:
  "get addBuyMilk ''type'' = JStr ''ADD_TASK'' \<and> isValid (validateAction addBuyMilk)
   \<and> appReducer env0 threeTasks addBuyMilk
       = Some (threeTasks\<lparr>tasks := [task1, task2, task3, milkTask]\<rparr>)
   \<and> completed milkTask = False \<and> id_t milkTask = generateId env0
   \<and> id_t milkTask \<notin> id_t ` set (tasks threeTasks)"
proof -
  have h: "get addBuyMilk ''type'' = JStr ''ADD_TASK'' \<and> isValid (validateAction addBuyMilk)"
    by code_simp
  have e: "appReducer env0 threeTasks addBuyMilk
       = Some (threeTasks\<lparr>tasks := [task1, task2, task3, milkTask]\<rparr>)"
    by code_simp
  have n: "id_t milkTask \<notin> id_t ` set (tasks threeTasks)"
    by code_simp
  from add_task_effect [of addBuyMilk env0 threeTasks] h obtain s' t where
    s': "appReducer env0 threeTasks addBuyMilk = Some s'"
    and t: "tasks s' = tasks threeTasks @ [t]" "completed t = False" "id_t t = generateId env0"
    by blast
  from e s' have "tasks s' = [task1, task2, task3, milkTask]" by simp
  with t(1) have "t = milkTask" by (simp add: threeTasks_def)
  with t have "completed milkTask = False \<and> id_t milkTask = generateId env0" by simp
  with h e n show ?thesis by blast
qed

section \<open>C6: REORDER_TASKS\<close>

text \<open>
  Claim C6. For every state \<open>s\<close> and every REORDER_TASKS action with integer
  \<open>fromIndex\<close> and \<open>toIndex\<close> both in \<open>[0, s.tasks.length)\<close>, the resulting list of
  tasks is a permutation of \<open>s.tasks\<close>, obtained by removing the element at
  \<open>fromIndex\<close> and inserting it at position \<open>toIndex\<close> of the shortened list; \<open>ui\<close>
  and \<open>theme\<close> are unchanged. If either index is not an integer or out of bounds (or
  no number at all), the state is returned unchanged.
\<close>

theorem reorder_tasks_effect:
  "get a ''type'' = JStr ''REORDER_TASKS'' \<longrightarrow>
     (\<forall>i j. get (get a ''payload'') ''fromIndex'' = JNum (Num (of_nat i))
            \<and> get (get a ''payload'') ''toIndex'' = JNum (Num (of_nat j))
            \<and> i < length (tasks s) \<and> j < length (tasks s)
        \<longrightarrow> (\<exists>ts. appReducer env s a = Some (s\<lparr>tasks := ts\<rparr>)
               \<and> ts = take j (take i (tasks s) @ drop (Suc i) (tasks s)) @ tasks s ! i
                       # drop j (take i (tasks s) @ drop (Suc i) (tasks s))
               \<and> mset ts = mset (tasks s) \<and> length ts = length (tasks s)
               \<and> ts ! j = tasks s ! i))
   \<and> ((\<nexists>i j. get (get a ''payload'') ''fromIndex'' = JNum (Num (of_nat i))
            \<and> get (get a ''payload'') ''toIndex'' = JNum (Num (of_nat j))
            \<and> i < length (tasks s) \<and> j < length (tasks s))
        \<longrightarrow> appReducer env s a = Some s)"
proof (intro impI conjI allI)
  fix i j
  assume ty: "get a ''type'' = JStr ''REORDER_TASKS''"
    and h: "get (get a ''payload'') ''fromIndex'' = JNum (Num (of_nat i))
            \<and> get (get a ''payload'') ''toIndex'' = JNum (Num (of_nat j))
            \<and> i < length (tasks s) \<and> j < length (tasks s)"
  let ?ts = "spliceIn j (tasks s ! i) (spliceOut i (tasks s))"
  from ty have "\<not> notObject a" by (intro get_defined_object [of a "''type''"]) simp
  moreover from h have "\<not> notObject (get a ''payload'')"
    by (intro get_defined_object [of _ "''fromIndex''"]) simp
  ultimately have v: "isValid (validateAction a)"
    using ty by (simp add: validateAction_def Let_def)
  from h have w: "isValid (validateReorderIndices (get (get a ''payload'') ''fromIndex'')
      (get (get a ''payload'') ''toIndex'') (length (tasks s)))"
    unfolding validateReorderIndices_iff by blast
  from ty v w h have r: "appReducer env s a = Some (s\<lparr>tasks := ?ts\<rparr>)"
    by (simp add: dispatch_REORDER_TASKS reduceReorderTasks_def Let_def del: asIndex.simps
        add: asIndex_of_nat)
  from h have m: "mset ?ts = mset (tasks s)" by (intro reorder_set) simp_all
  from h have j: "j \<le> length (spliceOut i (tasks s))" by (auto simp: spliceOut_length)
  from m have l: "length ?ts = length (tasks s)" by (rule mset_eq_length)
  from r m l spliceIn_nth [OF j]
  show "\<exists>ts. appReducer env s a = Some (s\<lparr>tasks := ts\<rparr>)
               \<and> ts = take j (take i (tasks s) @ drop (Suc i) (tasks s)) @ tasks s ! i
                       # drop j (take i (tasks s) @ drop (Suc i) (tasks s))
               \<and> mset ts = mset (tasks s) \<and> length ts = length (tasks s)
               \<and> ts ! j = tasks s ! i"
    unfolding spliceIn_def spliceOut_def by blast
next
  assume ty: "get a ''type'' = JStr ''REORDER_TASKS''"
    and n: "\<nexists>i j. get (get a ''payload'') ''fromIndex'' = JNum (Num (of_nat i))
            \<and> get (get a ''payload'') ''toIndex'' = JNum (Num (of_nat j))
            \<and> i < length (tasks s) \<and> j < length (tasks s)"
  then have "\<not> isValid (validateReorderIndices (get (get a ''payload'') ''fromIndex'')
      (get (get a ''payload'') ''toIndex'') (length (tasks s)))"
    unfolding validateReorderIndices_iff by blast
  with ty show "appReducer env s a = Some s"
    by (simp add: dispatch_REORDER_TASKS reduceReorderTasks_def Let_def)
qed

text \<open>Task 1 is moved behind task 3; a fractional index and an index past the end leave
  the state as it is.\<close>

theorem reorder_tasks_effect_witness:
  "appReducer env0 threeTasks
     (mkAction ''REORDER_TASKS''
        (JObj [(''fromIndex'', JNum (Num 0)), (''toIndex'', JNum (Num 2))]))
     = Some (threeTasks\<lparr>tasks := [task2, task3, task1]\<rparr>)
   \<and> mset [task2, task3, task1] = mset (tasks threeTasks)
   \<and> appReducer env0 threeTasks
       (mkAction ''REORDER_TASKS''
          (JObj [(''fromIndex'', JNum (Num (1 / 2))), (''toIndex'', JNum (Num 2))]))
       = Some threeTasks
   \<and> appReducer env0 threeTasks
       (mkAction ''REORDER_TASKS''
          (JObj [(''fromIndex'', JNum (Num 0)), (''toIndex'', JNum (Num 3))]))
       = Some threeTasks"
proof -
  let ?ok = "mkAction ''REORDER_TASKS''
        (JObj [(''fromIndex'', JNum (Num 0)), (''toIndex'', JNum (Num 2))])"
  let ?frac = "mkAction ''REORDER_TASKS''
          (JObj [(''fromIndex'', JNum (Num (1 / 2))), (''toIndex'', JNum (Num 2))])"
  let ?out = "mkAction ''REORDER_TASKS''
          (JObj [(''fromIndex'', JNum (Num 0)), (''toIndex'', JNum (Num 3))])"
  note eff = reorder_tasks_effect
  have ty: "get ?ok ''type'' = JStr ''REORDER_TASKS''"
    "get ?frac ''type'' = JStr ''REORDER_TASKS''" "get ?out ''type'' = JStr ''REORDER_TASKS''"
    by (simp_all add: mkAction_def)
  have len: "length (tasks threeTasks) = 3" by (simp add: threeTasks_def)
  have ok: "get (get ?ok ''payload'') ''fromIndex'' = JNum (Num (of_nat 0))
      \<and> get (get ?ok ''payload'') ''toIndex'' = JNum (Num (of_nat 2))
      \<and> 0 < length (tasks threeTasks) \<and> 2 < length (tasks threeTasks)"
    by (simp add: mkAction_def len)
  from eff [of ?ok threeTasks env0, THEN mp, OF ty(1), THEN conjunct1, rule_format, OF ok]
  obtain ts where ts: "appReducer env0 threeTasks ?ok = Some (threeTasks\<lparr>tasks := ts\<rparr>)"
    "ts = take 2 (take 0 (tasks threeTasks) @ drop (Suc 0) (tasks threeTasks))
          @ tasks threeTasks ! 0 # drop 2 (take 0 (tasks threeTasks) @ drop (Suc 0) (tasks threeTasks))"
    "mset ts = mset (tasks threeTasks)"
    by blast
  from ts(2) have "ts = [task2, task3, task1]" by (simp add: threeTasks_def)
  with ts have 1: "appReducer env0 threeTasks ?ok = Some (threeTasks\<lparr>tasks := [task2, task3, task1]\<rparr>)"
    and 2: "mset [task2, task3, task1] = mset (tasks threeTasks)" by simp_all
  have frac: "\<nexists>i j. get (get ?frac ''payload'') ''fromIndex'' = JNum (Num (of_nat i))
            \<and> get (get ?frac ''payload'') ''toIndex'' = JNum (Num (of_nat j))
            \<and> i < length (tasks threeTasks) \<and> j < length (tasks threeTasks)"
  proof
    assume "\<exists>i j. get (get ?frac ''payload'') ''fromIndex'' = JNum (Num (of_nat i))
            \<and> get (get ?frac ''payload'') ''toIndex'' = JNum (Num (of_nat j))
            \<and> i < length (tasks threeTasks) \<and> j < length (tasks threeTasks)"
    then obtain i :: nat where "(1::rat) / 2 = of_nat i" by (auto simp: mkAction_def)
    then have "(1::rat) = of_nat (2 * i)" by simp
    then have "(1::nat) = 2 * i" using of_nat_eq_iff [where ?'a = rat] by (metis of_nat_1)
    then show False by presburger
  qed
  have out: "\<nexists>i j. get (get ?out ''payload'') ''fromIndex'' = JNum (Num (of_nat i))
            \<and> get (get ?out ''payload'') ''toIndex'' = JNum (Num (of_nat j))
            \<and> i < length (tasks threeTasks) \<and> j < length (tasks threeTasks)"
  proof
    assume "\<exists>i j. get (get ?out ''payload'') ''fromIndex'' = JNum (Num (of_nat i))
            \<and> get (get ?out ''payload'') ''toIndex'' = JNum (Num (of_nat j))
            \<and> i < length (tasks threeTasks) \<and> j < length (tasks threeTasks)"
    then obtain j :: nat where "(3::rat) = of_nat j" "j < 3" by (auto simp: mkAction_def len)
    then have "(3::nat) = j" using of_nat_eq_iff [where ?'a = rat] by (metis of_nat_numeral)
    with \<open>j < 3\<close> show False by simp
  qed
  from eff [of ?frac threeTasks env0, THEN mp, OF ty(2), THEN conjunct2, THEN mp, OF frac]
  have 3: "appReducer env0 threeTasks ?frac = Some threeTasks" .
  from eff [of ?out threeTasks env0, THEN mp, OF ty(3), THEN conjunct2, THEN mp, OF out]
  have 4: "appReducer env0 threeTasks ?out = Some threeTasks" .
  from 1 2 3 4 show ?thesis by blast
qed

section \<open>C7: the upcoming tasks\<close>




section \<open>C8: memoization by createSelector\<close>

text \<open>
  Claim C8 says that for every selector built with \<open>createSelector\<close>, two calls in
  succession with inputs that its equality function considers equal compute once and
  return the cached result the second time, and that the memoized selector agrees with
  the unmemoized computation on every call. Three selectors show where this stops.
  The guard of the cache is \<^verbatim>\<open>hasRun && lastInput !== undefined && equalityFn(...)\<close>: a
  selector whose input is \<^verbatim>\<open>undefined\<close> computes on every call. A selector whose
  equality function holds two inputs equal on which the compute function differs returns
  the result of the first input for the second. And the compute function of
  \<open>selectUpcomingTasks\<close> reads the clock: called at noon of day 0 and again eight days
  later with the same tasks, it returns the cached list with the task of day 1, where
  the computation at that time gives the empty list.
\<close>

theorem createSelector_counterexample:
  "defaultEqualityFn (None :: nat option) None
   \<and> calls undefinedInputSelector newCache [threeTasks, threeTasks]
       = ([Some 0, Some 0], \<lparr>lastInput = None, lastResult = Some 0, hasRun = True\<rparr>, 2)
   \<and> calls coarseSelector newCache [1, 2]
       = ([Some 1, Some 1], \<lparr>lastInput = Some 1, lastResult = Some 1, hasRun = True\<rparr>, 1)
   \<and> fst (selectUpcomingTasks noonClock newCache tomorrowState) = Some [dueTomorrow]
   \<and> fst (selectUpcomingTasks laterClock
            (fst (snd (selectUpcomingTasks noonClock newCache tomorrowState))) tomorrowState)
       = Some [dueTomorrow]
   \<and> upcomingTasks laterClock (tasks tomorrowState) = []"
  by code_simp

text \<open>
  Claim C8, amended. For every selector built with \<open>createSelector\<close>: of two calls in
  succession, the first of which computes (as the first call of a selector does), with
  inputs that its equality function considers equal and the first of which is not
  \<^verbatim>\<open>undefined\<close>, the second returns the identical cached result and leaves the cache as
  it is, and the compute function is invoked exactly once across the two calls; in
  particular, a selector over \<^verbatim>\<open>state.tasks\<close> with the default equality, called for the
  first time and then again with a state that shares the tasks array, computes only once.
  The memoized selector agrees with the unmemoized computation on every call when the
  compute function depends on its input alone and gives equal results on inputs that the
  equality function considers equal.
\<close>

theorem createSelector_memoizes:
  "(\<forall>c0 r1 c1 n1 r2 c2 n2.
      createSelector inp f eq c0 s1 = (r1, c1, n1)
      \<and> createSelector inp f eq c1 s2 = (r2, c2, n2)
      \<and> n1 = 1 \<and> inp s1 \<noteq> None \<and> eq (inp s1) (inp s2)
      \<longrightarrow> r2 = r1 \<and> c2 = c1 \<and> n1 + n2 = 1)
   \<and> snd (snd (createSelector inp f eq newCache s1)) = 1
   \<and> (tasks t1 = tasks t2 \<longrightarrow>
        calls (createSelector (\<lambda>state. Some (tasks state)) g defaultEqualityFn) newCache
          [t1, t2]
        = ([g (Some (tasks t1)), g (Some (tasks t1))],
           \<lparr>lastInput = Some (tasks t1), lastResult = g (Some (tasks t1)), hasRun = True\<rparr>,
           1))
   \<and> ((\<forall>x y. x \<noteq> None \<and> eq x y \<longrightarrow> f y = f x) \<longrightarrow>
        fst (calls (createSelector inp f eq) newCache states) = map (\<lambda>s. f (inp s)) states)"
proof (intro conjI allI impI)
  fix c0 r1 c1 n1 r2 c2 n2
  assume h: "createSelector inp f eq c0 s1 = (r1, c1, n1)
      \<and> createSelector inp f eq c1 s2 = (r2, c2, n2)
      \<and> n1 = 1 \<and> inp s1 \<noteq> None \<and> eq (inp s1) (inp s2)"
  then have "r2 = r1 \<and> c2 = c1 \<and> n1 + n2 = 1"
    using createSelector_second [of inp f eq c0 s1 r1 c1 n1 s2 r2 c2 n2] by blast
  then show "r2 = r1" "c2 = c1" "n1 + n2 = 1" by blast+
next
  show "snd (snd (createSelector inp f eq newCache s1)) = 1"
    by (rule createSelector_first)
next
  assume "tasks t1 = tasks t2"
  then show "calls (createSelector (\<lambda>state. Some (tasks state)) g defaultEqualityFn) newCache
          [t1, t2]
        = ([g (Some (tasks t1)), g (Some (tasks t1))],
           \<lparr>lastInput = Some (tasks t1), lastResult = g (Some (tasks t1)), hasRun = True\<rparr>,
           1)"
    by (simp add: createSelector_def newCache_def defaultEqualityFn_def Let_def)
next
  assume "\<forall>x y. x \<noteq> None \<and> eq x y \<longrightarrow> f y = f x"
  then have "\<And>x y. x \<noteq> None \<Longrightarrow> eq x y \<Longrightarrow> f y = f x" by blast
  moreover have "cacheOf f newCache" by (simp add: cacheOf_def newCache_def)
  ultimately show "fst (calls (createSelector inp f eq) newCache states)
      = map (\<lambda>s. f (inp s)) states"
    by (rule calls_refines)
qed

text \<open>The unit test: a selector that counts the tasks, called with a state and with a
  state that differs in \<open>ui\<close> only; then with another list of tasks.\<close>

theorem createSelector_memoizes_witness:
  "tasks threeTasks = tasks (threeTasks\<lparr>ui := (ui threeTasks)\<lparr>reorderMode := True\<rparr>\<rparr>)
   \<and> calls countTasks newCache
        [threeTasks, threeTasks\<lparr>ui := (ui threeTasks)\<lparr>reorderMode := True\<rparr>\<rparr>]
       = ([Some 3, Some 3],
          \<lparr>lastInput = Some (tasks threeTasks), lastResult = Some 3, hasRun = True\<rparr>, 1)
   \<and> fst (calls countTasks newCache [threeTasks, milkState, milkState])
       = [Some 3, Some 1, Some 1]
   \<and> fst (countTasks \<lparr>lastInput = Some (tasks threeTasks), lastResult = Some 3, hasRun = True\<rparr>
            threeTasks) = Some 3"
proof -
  let ?t2 = "threeTasks\<lparr>ui := (ui threeTasks)\<lparr>reorderMode := True\<rparr>\<rparr>"
  let ?inp = "\<lambda>state. Some (tasks state)"
  let ?f = "map_option length :: Task list option \<Rightarrow> nat option"
  let ?c1 = "\<lparr>lastInput = Some (tasks threeTasks), lastResult = Some (3::nat), hasRun = True\<rparr>"
  note m = createSelector_memoizes [of ?inp ?f defaultEqualityFn threeTasks threeTasks
      threeTasks ?t2 ?f "[threeTasks, milkState, milkState]"]
  have t: "tasks threeTasks = tasks ?t2" by simp
  have l: "?f (Some (tasks threeTasks)) = Some 3" by (simp add: threeTasks_def)
  from m [THEN conjunct2, THEN conjunct2, THEN conjunct1, THEN mp, OF t]
  have 1: "calls countTasks newCache [threeTasks, ?t2] = ([Some 3, Some 3], ?c1, 1)"
    unfolding countTasks_def l .
  have e: "\<forall>x y. x \<noteq> None \<and> defaultEqualityFn x y \<longrightarrow> ?f y = ?f x"
    by (simp add: defaultEqualityFn_def)
  from m [THEN conjunct2, THEN conjunct2, THEN conjunct2, THEN mp, OF e]
  have 2: "fst (calls countTasks newCache [threeTasks, milkState, milkState])
       = [Some 3, Some 1, Some 1]"
    unfolding countTasks_def by (simp add: threeTasks_def milkState_def)
  have a: "createSelector ?inp ?f defaultEqualityFn newCache threeTasks = (Some 3, ?c1, 1)"
    by (simp add: createSelector_def newCache_def Let_def threeTasks_def)
  obtain r2 c2 n2 where b: "createSelector ?inp ?f defaultEqualityFn ?c1 threeTasks = (r2, c2, n2)"
    by (cases "createSelector ?inp ?f defaultEqualityFn ?c1 threeTasks")
  have q: "defaultEqualityFn (?inp threeTasks) (?inp threeTasks)"
    by (simp add: defaultEqualityFn_def)
  from m [THEN conjunct1, rule_format, of newCache "Some 3" ?c1 1 r2 c2 n2] a b q
  have "r2 = Some 3" by simp
  with b have 3: "fst (countTasks ?c1 threeTasks) = Some 3"
    by (simp add: countTasks_def)
  from t 1 2 3 show ?thesis by blast
qed

section \<open>C9: TOGGLE_COMPLETE twice\<close>

text \<open>
  Claim C9. For every state \<open>s\<close> and every id of a task in \<open>s.tasks\<close>, applying
  TOGGLE_COMPLETE with that id twice in a row returns the completed flag to its original
  value (the second application returns \<open>s\<close>), and neither application changes
  anything but the completed flag of the tasks with that id: the other tasks, the other
  fields of the toggled tasks, \<open>ui\<close> and \<open>theme\<close> stay as they are. An id that is not
  white space only is accepted, and the first application flips the flag.
\<close>

theorem toggle_complete_twice:
  "get a ''type'' = JStr ''TOGGLE_COMPLETE'' \<and> get a ''payload'' = JStr i
   \<and> i \<in> id_t ` set (tasks s) \<longrightarrow>
   (\<exists>s1. appReducer env s a = Some s1 \<and> appReducer env' s1 a = Some s
      \<and> ui s1 = ui s \<and> theme s1 = theme s \<and> length (tasks s1) = length (tasks s)
      \<and> (\<forall>k<length (tasks s).
            (id_t (tasks s ! k) \<noteq> i \<longrightarrow> tasks s1 ! k = tasks s ! k)
          \<and> tasks s1 ! k = (tasks s ! k)\<lparr>completed := completed (tasks s1 ! k)\<rparr>
          \<and> (id_t (tasks s ! k) = i \<and> \<not> blank i \<longrightarrow>
               completed (tasks s1 ! k) = (\<not> completed (tasks s ! k)))))"
proof (intro impI)
  assume h: "get a ''type'' = JStr ''TOGGLE_COMPLETE'' \<and> get a ''payload'' = JStr i
             \<and> i \<in> id_t ` set (tasks s)"
  let ?s1 = "if blank i then s else s\<lparr>tasks := toggled i (tasks s)\<rparr>"
  from h have 1: "appReducer env s a = Some ?s1" by (simp add: toggle_step)
  have "map id_t (tasks ?s1) = map id_t (tasks s)" by (simp add: toggled_ids)
  then have "id_t ` set (tasks ?s1) = id_t ` set (tasks s)" by (metis set_map)
  with h have "i \<in> id_t ` set (tasks ?s1)" by simp
  with h toggle_step [of a i ?s1 env']
  have 2: "appReducer env' ?s1 a = Some s" by (simp add: toggled_toggled)
  have 3: "ui ?s1 = ui s \<and> theme ?s1 = theme s \<and> length (tasks ?s1) = length (tasks s)"
    by (simp add: toggled_def)
  have 4: "\<forall>k<length (tasks s).
            (id_t (tasks s ! k) \<noteq> i \<longrightarrow> tasks ?s1 ! k = tasks s ! k)
          \<and> tasks ?s1 ! k = (tasks s ! k)\<lparr>completed := completed (tasks ?s1 ! k)\<rparr>
          \<and> (id_t (tasks s ! k) = i \<and> \<not> blank i \<longrightarrow>
               completed (tasks ?s1 ! k) = (\<not> completed (tasks s ! k)))"
    by (simp add: toggled_def)
  from 1 2 3 4 show "\<exists>s1. appReducer env s a = Some s1 \<and> appReducer env' s1 a = Some s
      \<and> ui s1 = ui s \<and> theme s1 = theme s \<and> length (tasks s1) = length (tasks s)
      \<and> (\<forall>k<length (tasks s).
            (id_t (tasks s ! k) \<noteq> i \<longrightarrow> tasks s1 ! k = tasks s ! k)
          \<and> tasks s1 ! k = (tasks s ! k)\<lparr>completed := completed (tasks s1 ! k)\<rparr>
          \<and> (id_t (tasks s ! k) = i \<and> \<not> blank i \<longrightarrow>
               completed (tasks s1 ! k) = (\<not> completed (tasks s ! k))))"
    by blast
qed

theorem toggle_complete_twice_witness:
  "''1'' \<in> id_t ` set (tasks threeTasks)
   \<and> appReducer env0 threeTasks (mkAction ''TOGGLE_COMPLETE'' (JStr ''1''))
       = Some (threeTasks\<lparr>tasks := [task1\<lparr>completed := True\<rparr>, task2, task3]\<rparr>)
   \<and> appReducer env1 (threeTasks\<lparr>tasks := [task1\<lparr>completed := True\<rparr>, task2, task3]\<rparr>)
        (mkAction ''TOGGLE_COMPLETE'' (JStr ''1''))
       = Some threeTasks"
proof -
  let ?a = "mkAction ''TOGGLE_COMPLETE'' (JStr ''1'')"
  let ?s1 = "threeTasks\<lparr>tasks := [task1\<lparr>completed := True\<rparr>, task2, task3]\<rparr>"
  have h: "get ?a ''type'' = JStr ''TOGGLE_COMPLETE'' \<and> get ?a ''payload'' = JStr ''1''
           \<and> ''1'' \<in> id_t ` set (tasks threeTasks)"
    by (simp add: mkAction_def threeTasks_def task1_def)
  have e: "appReducer env0 threeTasks ?a = Some ?s1" by code_simp
  from toggle_complete_twice [of ?a "''1''" threeTasks env0 env1, THEN mp, OF h]
  obtain s1 where "appReducer env0 threeTasks ?a = Some s1"
    and "appReducer env1 s1 ?a = Some threeTasks" by blast
  with e have "appReducer env1 ?s1 ?a = Some threeTasks" by simp
  with h e show ?thesis by blast
qed

section \<open>C10: UPDATE_TASK\<close>




end
